theory Spec2Isabelle
  imports Main "HOL-Library.AList" "HOL-Library.Sublist"
begin

section \<open>Paths, as pathlib parses them\<close>

text \<open>
  A path is the list of its components, as \<^verbatim>\<open>pathlib.Path\<close> keeps them after parsing.
  The working directory is the root of the modelled tree, so \<^verbatim>\<open>Path('.')\<close> is the empty
  list. The conversions \<^verbatim>\<open>str(f)\<close> and \<^verbatim>\<open>Path(s)\<close> between a parsed path and its text
  are the identity on parsed paths; arguments typed \<^verbatim>\<open>str\<close> in app.py that are only ever
  handed to \<^verbatim>\<open>Path(...)\<close> are therefore taken in parsed form.
\<close>

type_synonym path = "string list"

fun split_on :: "char \<Rightarrow> string \<Rightarrow> string list" where
  "split_on c [] = [[]]"
| "split_on c (x # xs) =
     (if x = c then [] # split_on c xs
      else (case split_on c xs of [] \<Rightarrow> [[x]] | s # ss \<Rightarrow> (x # s) # ss))"

definition parse_path :: "string \<Rightarrow> path" where
  \<comment> \<open>\<^verbatim>\<open>Path(s)\<close>: split at the separator, drop empty and \<^verbatim>\<open>'.'\<close> components.\<close>
  "parse_path s = filter (\<lambda>c. c \<noteq> [] \<and> c \<noteq> ''.'') (split_on (CHR ''/'') s)"

definition pjoin :: "path \<Rightarrow> string \<Rightarrow> path" where
  \<comment> \<open>\<^verbatim>\<open>p / seg\<close>: an absolute segment replaces \<open>p\<close>.\<close>
  "pjoin p seg =
     (case seg of
        [] \<Rightarrow> p
      | c # _ \<Rightarrow> if c = CHR ''/'' then parse_path seg else p @ parse_path seg)"

definition parent :: "path \<Rightarrow> path" where
  "parent p = butlast p"

definition name :: "path \<Rightarrow> string" where
  "name p = (case rev p of [] \<Rightarrow> [] | c # _ \<Rightarrow> c)"

fun rfind :: "char \<Rightarrow> string \<Rightarrow> nat option" where
  \<comment> \<open>\<^verbatim>\<open>str.rfind\<close>, with \<open>None\<close> for \<open>-1\<close>.\<close>
  "rfind c [] = None"
| "rfind c (x # xs) =
     (case rfind c xs of
        Some i \<Rightarrow> Some (Suc i)
      | None \<Rightarrow> if x = c then Some 0 else None)"

definition suffix_of :: "path \<Rightarrow> string" where
  \<comment> \<open>\<^verbatim>\<open>PurePath.suffix\<close>: \<^verbatim>\<open>i = name.rfind('.'); name[i:] if 0 < i < len(name) - 1 else ''\<close>.\<close>
  "suffix_of p =
     (let n = name p in
      case rfind (CHR ''.'') n of
        None \<Rightarrow> []
      | Some i \<Rightarrow> if 0 < i \<and> i + 1 < length n then drop i n else [])"

definition stem :: "path \<Rightarrow> string" where
  \<comment> \<open>\<^verbatim>\<open>PurePath.stem\<close>: \<^verbatim>\<open>name[:i]\<close> under the same test, else the whole name.\<close>
  "stem p =
     (let n = name p in
      case rfind (CHR ''.'') n of
        None \<Rightarrow> n
      | Some i \<Rightarrow> if 0 < i \<and> i + 1 < length n then take i n else n)"

fun str_path :: "path \<Rightarrow> string" where
  \<comment> \<open>\<^verbatim>\<open>str(p)\<close>; the empty path prints as \<^verbatim>\<open>'.'\<close>.\<close>
  "str_path [] = ''.''"
| "str_path [c] = c"
| "str_path (c # d # cs) = c @ ''/'' @ str_path (d # cs)"

section \<open>Strings and dates\<close>

definition upper_char :: "char \<Rightarrow> char" where
  \<comment> \<open>\<^verbatim>\<open>str.upper\<close> on one ASCII character; every other byte is left as it is.\<close>
  "upper_char c =
     (case map_of (zip ''abcdefghijklmnopqrstuvwxyz'' ''ABCDEFGHIJKLMNOPQRSTUVWXYZ'') c of
        Some u \<Rightarrow> u
      | None \<Rightarrow> c)"

definition py_upper :: "string \<Rightarrow> string" where
  "py_upper s = map upper_char s"

record datetime =
  year :: nat
  month :: nat
  day :: nat
  hour :: nat
  minute :: nat
  second :: nat

definition digit :: "nat \<Rightarrow> char" where
  \<comment> \<open>the last decimal digit of \<open>n\<close>\<close>
  "digit n = ''0123456789'' ! (n mod 10)"

definition pad2 :: "nat \<Rightarrow> string" where
  "pad2 n = [digit (n div 10), digit n]"

definition pad4 :: "nat \<Rightarrow> string" where
  "pad4 n = [digit (n div 1000), digit (n div 100), digit (n div 10), digit n]"

definition directive :: "char \<Rightarrow> datetime \<Rightarrow> string" where
  "directive x d =
     (if x = CHR ''Y'' then pad4 (year d)
      else if x = CHR ''m'' then pad2 (month d)
      else if x = CHR ''d'' then pad2 (day d)
      else if x = CHR ''H'' then pad2 (hour d)
      else if x = CHR ''M'' then pad2 (minute d)
      else if x = CHR ''S'' then pad2 (second d)
      else [CHR ''%'', x])"

fun strftime :: "string \<Rightarrow> datetime \<Rightarrow> string" where
  "strftime [] d = []"
| "strftime [c] d = [c]"
| "strftime (c # x # fmt) d =
     (if c = CHR ''%'' then directive x d @ strftime fmt d
      else c # strftime (x # fmt) d)"

section \<open>The file system and the exceptions of the library\<close>

datatype errno =
  ENOENT | EEXIST | ENOTDIR | EISDIR | ENOTEMPTY | EINVAL | EACCES | EXDEV | ENOSPC | EIO

datatype exn =
  OSError errno
| SameFileError
| ShutilError
| IndexError
| OverflowError

record stat_info =
  st_size :: nat
  st_mtime :: int

datatype node =
  Dir stat_info
| File stat_info string

datatype syscall =
  Mkdir path
| Rename path path
| CopyFile path path
| Unlink path
| Copytree path path
| Rmtree path
| Scandir path
| Stat path

datatype log_msg =
  Folder_created_verified path
| Error_creating_folder path exn
| File_copied path path
| Error_copying_file path path exn
| File_moved path path
| Error_moving_file path path exn
| Folder_copied path path
| Error_copying_folder path path exn
| Folder_moved path path
| Error_moving_folder path path exn
| Found_files nat path
| Error_listing_files path exn
| File_deleted path
| Error_deleting_file path exn
| Folder_deleted path
| Error_deleting_folder path exn
| Error_creating_backup path exn
| Error_organizing exn

text \<open>
  The world a call runs in: the directory tree as an association list from paths to
  nodes (its order is the order in which a directory is listed; a tree that holds
  anything has an entry for the root \<open>[]\<close>), the system calls that fail for reasons outside
  the tree (permissions, a full or remote device), the clock, the conversion of
  \<^verbatim>\<open>datetime.fromtimestamp\<close>, the metadata a fresh directory gets, and the records the
  module's logger has emitted.
\<close>

record world =
  fs :: "(path \<times> node) list"
  fault :: "syscall \<Rightarrow> errno option"
  now :: datetime
  fromtimestamp :: "int \<Rightarrow> exn + datetime"
  fresh_dir :: stat_info
  log :: "log_msg list"

definition logger :: "log_msg \<Rightarrow> world \<Rightarrow> world" where
  "logger m w = w\<lparr>log := log w @ [m]\<rparr>"

definition is_error :: "log_msg \<Rightarrow> bool" where
  \<comment> \<open>the records emitted by \<^verbatim>\<open>logger.error\<close>\<close>
  "is_error m =
     (case m of
        Error_creating_folder _ _ \<Rightarrow> True
      | Error_copying_file _ _ _ \<Rightarrow> True
      | Error_moving_file _ _ _ \<Rightarrow> True
      | Error_copying_folder _ _ _ \<Rightarrow> True
      | Error_moving_folder _ _ _ \<Rightarrow> True
      | Error_listing_files _ _ \<Rightarrow> True
      | Error_deleting_file _ _ \<Rightarrow> True
      | Error_deleting_folder _ _ \<Rightarrow> True
      | Error_creating_backup _ _ \<Rightarrow> True
      | Error_organizing _ \<Rightarrow> True
      | _ \<Rightarrow> False)"

definition node_at :: "world \<Rightarrow> path \<Rightarrow> node option" where
  "node_at w p = map_of (fs w) p"

definition is_dir :: "world \<Rightarrow> path \<Rightarrow> bool" where
  "is_dir w p = (case node_at w p of Some (Dir _) \<Rightarrow> True | _ \<Rightarrow> False)"

definition is_file :: "world \<Rightarrow> path \<Rightarrow> bool" where
  "is_file w p = (case node_at w p of Some (File _ _) \<Rightarrow> True | _ \<Rightarrow> False)"

definition exists_path :: "world \<Rightarrow> path \<Rightarrow> bool" where
  "exists_path w p = (node_at w p \<noteq> None)"

definition parent_check :: "world \<Rightarrow> path \<Rightarrow> errno option" where
  \<comment> \<open>what creating an entry at \<open>p\<close> fails with when its directory is not there\<close>
  "parent_check w p =
     (case node_at w (parent p) of
        None \<Rightarrow> Some ENOENT
      | Some (File _ _) \<Rightarrow> Some ENOTDIR
      | Some (Dir _) \<Rightarrow> None)"

definition children :: "world \<Rightarrow> path \<Rightarrow> path list" where
  \<comment> \<open>the entries directly inside \<open>d\<close>, in listing order\<close>
  "children w d = filter (\<lambda>p. p \<noteq> [] \<and> parent p = d) (map fst (fs w))"

definition under :: "path \<Rightarrow> path \<Rightarrow> bool" where
  \<comment> \<open>\<open>q\<close> is \<open>p\<close> or lies below it\<close>
  "under p q = prefix p q"

subsection \<open>System calls: each fails without a change, or takes effect whole\<close>

definition os_mkdir :: "path \<Rightarrow> world \<Rightarrow> (exn + unit) \<times> world" where
  "os_mkdir p w =
     (case fault w (Mkdir p) of
        Some e \<Rightarrow> (Inl (OSError e), w)
      | None \<Rightarrow>
          if exists_path w p then (Inl (OSError EEXIST), w)
          else (case parent_check w p of
                  Some e \<Rightarrow> (Inl (OSError e), w)
                | None \<Rightarrow> (Inr (), w\<lparr>fs := fs w @ [(p, Dir (fresh_dir w))]\<rparr>)))"

definition os_stat :: "path \<Rightarrow> world \<Rightarrow> (exn + stat_info) \<times> world" where
  "os_stat p w =
     (case fault w (Stat p) of
        Some e \<Rightarrow> (Inl (OSError e), w)
      | None \<Rightarrow>
          (case node_at w p of
             None \<Rightarrow> (Inl (OSError ENOENT), w)
           | Some (Dir s) \<Rightarrow> (Inr s, w)
           | Some (File s _) \<Rightarrow> (Inr s, w)))"

definition os_unlink :: "path \<Rightarrow> world \<Rightarrow> (exn + unit) \<times> world" where
  "os_unlink p w =
     (case fault w (Unlink p) of
        Some e \<Rightarrow> (Inl (OSError e), w)
      | None \<Rightarrow>
          (case node_at w p of
             None \<Rightarrow> (Inl (OSError ENOENT), w)
           | Some (Dir _) \<Rightarrow> (Inl (OSError EISDIR), w)
           | Some (File _ _) \<Rightarrow> (Inr (), w\<lparr>fs := AList.delete p (fs w)\<rparr>)))"

definition os_scandir :: "path \<Rightarrow> world \<Rightarrow> (exn + path list) \<times> world" where
  "os_scandir d w =
     (case fault w (Scandir d) of
        Some e \<Rightarrow> (Inl (OSError e), w)
      | None \<Rightarrow>
          (case node_at w d of
             None \<Rightarrow> (Inl (OSError ENOENT), w)
           | Some (File _ _) \<Rightarrow> (Inl (OSError ENOTDIR), w)
           | Some (Dir _) \<Rightarrow> (Inr (children w d), w)))"

definition rebase :: "path \<Rightarrow> path \<Rightarrow> path \<Rightarrow> path" where
  \<comment> \<open>the place under \<open>dst\<close> of a path \<open>q\<close> under \<open>src\<close>\<close>
  "rebase src dst q = dst @ drop (length src) q"

definition os_rename :: "path \<Rightarrow> path \<Rightarrow> world \<Rightarrow> (exn + unit) \<times> world" where
  "os_rename src dst w =
     (case fault w (Rename src dst) of
        Some e \<Rightarrow> (Inl (OSError e), w)
      | None \<Rightarrow>
          (case node_at w src of
             None \<Rightarrow> (Inl (OSError ENOENT), w)
           | Some (File s c) \<Rightarrow>
               if src = dst then (Inr (), w)
               else (case parent_check w dst of
                       Some e \<Rightarrow> (Inl (OSError e), w)
                     | None \<Rightarrow>
                         if is_dir w dst then (Inl (OSError EISDIR), w)
                         else (Inr (), w\<lparr>fs := AList.update dst (File s c)
                                                   (AList.delete src (fs w))\<rparr>))
           | Some (Dir s) \<Rightarrow>
               if src = dst then (Inr (), w)
               else if under src dst then (Inl (OSError EINVAL), w)
               else (case parent_check w dst of
                       Some e \<Rightarrow> (Inl (OSError e), w)
                     | None \<Rightarrow>
                         if is_file w dst then (Inl (OSError ENOTDIR), w)
                         else if children w dst \<noteq> [] then (Inl (OSError ENOTEMPTY), w)
                         else (Inr (), w\<lparr>fs :=
                                 map (\<lambda>(q, n). if under src q then (rebase src dst q, n)
                                                else (q, n))
                                     (AList.delete dst (fs w))\<rparr>))))"

subsection \<open>Library calls built from the system calls\<close>

definition mkdir1 :: "path \<Rightarrow> world \<Rightarrow> (exn + unit) \<times> world" where
  \<comment> \<open>\<^verbatim>\<open>Path.mkdir(parents=False, exist_ok=True)\<close>\<close>
  "mkdir1 p w =
     (case os_mkdir p w of
        (Inr u, w') \<Rightarrow> (Inr (), w')
      | (Inl e, w') \<Rightarrow>
          if e = OSError ENOENT then (Inl e, w')
          else if is_dir w' p then (Inr (), w')
          else (Inl e, w'))"

function path_mkdir :: "path \<Rightarrow> world \<Rightarrow> (exn + unit) \<times> world" where
  \<comment> \<open>\<^verbatim>\<open>Path.mkdir(parents=True, exist_ok=True)\<close>: on FileNotFoundError make the parent, then
      retry once without \<^verbatim>\<open>parents\<close>; on another OSError succeed iff the directory is there.\<close>
  "path_mkdir p w =
     (case os_mkdir p w of
        (Inr u, w') \<Rightarrow> (Inr (), w')
      | (Inl e, w') \<Rightarrow>
          if e = OSError ENOENT then
            (if parent p = p then (Inl e, w')
             else (case path_mkdir (parent p) w' of
                     (Inl e', w'') \<Rightarrow> (Inl e', w'')
                   | (Inr u, w'') \<Rightarrow> mkdir1 p w''))
          else if is_dir w' p then (Inr (), w')
          else (Inl e, w'))"
  by pat_completeness auto
termination
proof (relation "measure (\<lambda>(p, w). length p)")
  show "wf (measure (\<lambda>(p, w). length p))" by simp
next
  fix p :: path and w :: world and x xa y
  assume "parent p \<noteq> p"
  then have "p \<noteq> []" by (auto simp: parent_def)
  then show "((parent p, y), p, w) \<in> measure (\<lambda>(p, w). length p)"
    by (simp add: parent_def)
qed

declare path_mkdir.simps [simp del]

definition shutil_copy2 :: "path \<Rightarrow> path \<Rightarrow> world \<Rightarrow> (exn + unit) \<times> world" where
  \<comment> \<open>\<^verbatim>\<open>shutil.copy2\<close>: into \<open>dst\<close> when \<open>dst\<close> is a directory; content and metadata are copied,
      an existing file is overwritten.\<close>
  "shutil_copy2 src dst w =
     (let real_dst = (if is_dir w dst then pjoin dst (name src) else dst) in
      case fault w (CopyFile src real_dst) of
        Some e \<Rightarrow> (Inl (OSError e), w)
      | None \<Rightarrow>
          (case node_at w src of
             None \<Rightarrow> (Inl (OSError ENOENT), w)
           | Some (Dir _) \<Rightarrow> (Inl (OSError EISDIR), w)
           | Some (File s c) \<Rightarrow>
               if real_dst = src then (Inl SameFileError, w)
               else if is_dir w real_dst then (Inl (OSError EISDIR), w)
               else if is_file w real_dst
                 then (Inr (), w\<lparr>fs := AList.update real_dst (File s c) (fs w)\<rparr>)
               else (case parent_check w real_dst of
                       Some e \<Rightarrow> (Inl (OSError e), w)
                     | None \<Rightarrow>
                         (Inr (), w\<lparr>fs := AList.update real_dst (File s c) (fs w)\<rparr>))))"

definition shutil_rmtree :: "path \<Rightarrow> world \<Rightarrow> (exn + unit) \<times> world" where
  \<comment> \<open>\<^verbatim>\<open>shutil.rmtree\<close>; the working directory itself cannot be removed, only emptied.\<close>
  "shutil_rmtree p w =
     (case fault w (Rmtree p) of
        Some e \<Rightarrow> (Inl (OSError e), w)
      | None \<Rightarrow>
          (case node_at w p of
             None \<Rightarrow> (Inl (OSError ENOENT), w)
           | Some (File _ _) \<Rightarrow> (Inl (OSError ENOTDIR), w)
           | Some (Dir _) \<Rightarrow>
               if p = [] then
                 (Inl (OSError EINVAL), w\<lparr>fs := filter (\<lambda>(q, n). q = []) (fs w)\<rparr>)
               else (Inr (), w\<lparr>fs := filter (\<lambda>(q, n). \<not> under p q) (fs w)\<rparr>)))"

definition clashes :: "world \<Rightarrow> path \<times> node \<Rightarrow> bool" where
  \<comment> \<open>a file would land on a directory, or a directory on a file\<close>
  "clashes w qn =
     (case (node_at w (fst qn), snd qn) of
        (Some (Dir _), File _ _) \<Rightarrow> True
      | (Some (File _ _), Dir _) \<Rightarrow> True
      | _ \<Rightarrow> False)"

definition shutil_copytree :: "path \<Rightarrow> path \<Rightarrow> bool \<Rightarrow> world \<Rightarrow> (exn + unit) \<times> world" where
  \<comment> \<open>\<^verbatim>\<open>shutil.copytree(src, dst, dirs_exist_ok=b)\<close>, taken as one step: the tree below \<open>src\<close> is
      merged into \<open>dst\<close>. A copy of a tree into itself and a clash of kinds are reported as
      \<^verbatim>\<open>shutil.Error\<close> with nothing copied (the library copies what it can first).\<close>
  "shutil_copytree src dst dirs_exist_ok w =
     (case fault w (Copytree src dst) of
        Some e \<Rightarrow> (Inl (OSError e), w)
      | None \<Rightarrow>
          (case node_at w src of
             None \<Rightarrow> (Inl (OSError ENOENT), w)
           | Some (File _ _) \<Rightarrow> (Inl (OSError ENOTDIR), w)
           | Some (Dir s) \<Rightarrow>
               if under src dst then (Inl ShutilError, w)
               else if exists_path w dst \<and> \<not> (dirs_exist_ok \<and> is_dir w dst)
                 then (Inl (OSError EEXIST), w)
               else (case path_mkdir dst w of
                       (Inl e, w1) \<Rightarrow> (Inl e, w1)
                     | (Inr u, w1) \<Rightarrow>
                         (let copied = map (\<lambda>(q, n). (rebase src dst q, n))
                                (filter (\<lambda>(q, n). under src q \<and> q \<noteq> src) (fs w1))
                          in if list_ex (clashes w1) copied then (Inl ShutilError, w1)
                             else (Inr (), w1\<lparr>fs := fold (\<lambda>(q, n). AList.update q n)
                                                       copied (fs w1)\<rparr>)))))"

definition shutil_move :: "path \<Rightarrow> path \<Rightarrow> world \<Rightarrow> (exn + unit) \<times> world" where
  \<comment> \<open>\<^verbatim>\<open>shutil.move\<close>: into \<open>dst\<close> when \<open>dst\<close> is a directory (refusing to replace an entry
      there); \<^verbatim>\<open>os.rename\<close> first, and when that raises OSError, copy and then remove the
      source (\<^verbatim>\<open>copytree\<close> and \<^verbatim>\<open>rmtree\<close> for a directory, \<^verbatim>\<open>copy2\<close> and \<^verbatim>\<open>os.unlink\<close> for a file).\<close>
  "shutil_move src dst w =
     (if is_dir w dst \<and> src = dst then os_rename src dst w
      else
        (let real_dst = (if is_dir w dst then pjoin dst (name src) else dst) in
         if is_dir w dst \<and> exists_path w real_dst then (Inl ShutilError, w)
         else
           (case os_rename src real_dst w of
              (Inr u, w1) \<Rightarrow> (Inr (), w1)
            | (Inl e, w1) \<Rightarrow>
                if is_dir w1 src then
                  (if under src dst then (Inl ShutilError, w1)
                   else (case shutil_copytree src real_dst False w1 of
                           (Inl e', w2) \<Rightarrow> (Inl e', w2)
                         | (Inr u, w2) \<Rightarrow> shutil_rmtree src w2))
                else
                  (case shutil_copy2 src real_dst w1 of
                     (Inl e', w2) \<Rightarrow> (Inl e', w2)
                   | (Inr u, w2) \<Rightarrow> os_unlink src w2))))"

fun fnmatch :: "string \<Rightarrow> string \<Rightarrow> bool" where
  \<comment> \<open>a glob pattern against a whole name: \<^verbatim>\<open>*\<close> is any run of characters, \<^verbatim>\<open>?\<close> any one
      character, every other character stands for itself (character classes are not
      modelled).\<close>
  "fnmatch [] [] = True"
| "fnmatch [] (c # cs) = False"
| "fnmatch (p # ps) [] = (p = CHR ''*'' \<and> fnmatch ps [])"
| "fnmatch (p # ps) (c # cs) =
     (if p = CHR ''*'' then fnmatch ps (c # cs) \<or> fnmatch (p # ps) cs
      else if p = CHR ''?'' then fnmatch ps cs
      else p = c \<and> fnmatch ps cs)"

definition path_glob :: "path \<Rightarrow> string \<Rightarrow> world \<Rightarrow> (exn + path list) \<times> world" where
  \<comment> \<open>\<^verbatim>\<open>list(folder.glob(pat))\<close> for a pattern of one level: nothing when \<open>folder\<close> is not a
      directory or may not be read, else the entries of \<open>folder\<close> whose name matches.\<close>
  "path_glob folder pat w =
     (if \<not> is_dir w folder then (Inr [], w)
      else (case os_scandir folder w of
              (Inl e, w1) \<Rightarrow> if e = OSError EACCES then (Inr [], w1) else (Inl e, w1)
            | (Inr entries, w1) \<Rightarrow>
                (Inr (filter (\<lambda>f. fnmatch pat (name f)) entries), w1)))"

definition path_iterdir :: "path \<Rightarrow> world \<Rightarrow> (exn + path list) \<times> world" where
  \<comment> \<open>\<^verbatim>\<open>folder.iterdir()\<close>, read to its end\<close>
  "path_iterdir folder w = os_scandir folder w"

section \<open>class FileHandler (app.py)\<close>

text \<open>
  Every method is a function from the world to a result and the world after the call.
  A result \<open>Inl e\<close> is the exception \<open>e\<close> leaving the method, \<open>Inr v\<close> the value returned.
  Each \<^verbatim>\<open>try\<close> is written as its body with, at every call that may raise, the branch
  into the \<^verbatim>\<open>except Exception\<close> handler.
\<close>

record FileHandler =
  base_folder :: path

definition create_folder :: "path \<Rightarrow> world \<Rightarrow> (exn + bool) \<times> world" where
  "create_folder folder_path w =
     (case path_mkdir folder_path w of
        (Inr u, w1) \<Rightarrow> (Inr True, logger (Folder_created_verified folder_path) w1)
      | (Inl e, w1) \<Rightarrow> (Inr False, logger (Error_creating_folder folder_path e) w1))"

definition init :: "path \<Rightarrow> world \<Rightarrow> (exn + FileHandler) \<times> world" where
  \<comment> \<open>\<^verbatim>\<open>__init__\<close>\<close>
  "init base w =
     (case create_folder base w of
        (Inl e, w1) \<Rightarrow> (Inl e, w1)
      | (Inr b, w1) \<Rightarrow> (Inr \<lparr>base_folder = base\<rparr>, w1))"

fun create_project_loop ::
  "FileHandler \<Rightarrow> string list \<Rightarrow> bool \<Rightarrow> world \<Rightarrow> (exn + bool) \<times> world" where
  "create_project_loop self [] success w = (Inr success, w)"
| "create_project_loop self (folder # folders) success w =
     (case create_folder (pjoin (base_folder self) folder) w of
        (Inl e, w1) \<Rightarrow> (Inl e, w1)
      | (Inr b, w1) \<Rightarrow>
          create_project_loop self folders (if \<not> b then False else success) w1)"

definition create_project_structure ::
  "FileHandler \<Rightarrow> string list \<Rightarrow> world \<Rightarrow> (exn + bool) \<times> world" where
  "create_project_structure self folders w = create_project_loop self folders True w"

definition copy_file :: "path \<Rightarrow> path \<Rightarrow> world \<Rightarrow> (exn + bool) \<times> world" where
  "copy_file source_path destination_path w =
     (let dest_dir = parent destination_path in
      case create_folder dest_dir w of
        (Inl e, w1) \<Rightarrow>
          (Inr False, logger (Error_copying_file source_path destination_path e) w1)
      | (Inr b, w1) \<Rightarrow>
          (case shutil_copy2 source_path destination_path w1 of
             (Inl e, w2) \<Rightarrow>
               (Inr False, logger (Error_copying_file source_path destination_path e) w2)
           | (Inr u, w2) \<Rightarrow>
               (Inr True, logger (File_copied source_path destination_path) w2)))"

definition move_file :: "path \<Rightarrow> path \<Rightarrow> world \<Rightarrow> (exn + bool) \<times> world" where
  "move_file source_path destination_path w =
     (let dest_dir = parent destination_path in
      case create_folder dest_dir w of
        (Inl e, w1) \<Rightarrow>
          (Inr False, logger (Error_moving_file source_path destination_path e) w1)
      | (Inr b, w1) \<Rightarrow>
          (case shutil_move source_path destination_path w1 of
             (Inl e, w2) \<Rightarrow>
               (Inr False, logger (Error_moving_file source_path destination_path e) w2)
           | (Inr u, w2) \<Rightarrow>
               (Inr True, logger (File_moved source_path destination_path) w2)))"

definition copy_folder :: "path \<Rightarrow> path \<Rightarrow> world \<Rightarrow> (exn + bool) \<times> world" where
  "copy_folder source_folder destination_folder w =
     (case shutil_copytree source_folder destination_folder True w of
        (Inl e, w1) \<Rightarrow>
          (Inr False, logger (Error_copying_folder source_folder destination_folder e) w1)
      | (Inr u, w1) \<Rightarrow>
          (Inr True, logger (Folder_copied source_folder destination_folder) w1))"

definition move_folder :: "path \<Rightarrow> path \<Rightarrow> world \<Rightarrow> (exn + bool) \<times> world" where
  "move_folder source_folder destination_folder w =
     (case shutil_move source_folder destination_folder w of
        (Inl e, w1) \<Rightarrow>
          (Inr False, logger (Error_moving_folder source_folder destination_folder e) w1)
      | (Inr u, w1) \<Rightarrow>
          (Inr True, logger (Folder_moved source_folder destination_folder) w1))"

definition list_files :: "path \<Rightarrow> string option \<Rightarrow> world \<Rightarrow> (exn + path list) \<times> world" where
  \<comment> \<open>\<^verbatim>\<open>if extension:\<close> is false for \<^verbatim>\<open>None\<close> and for the empty string.\<close>
  "list_files folder_path extension w =
     (case (if extension \<noteq> None \<and> extension \<noteq> Some []
            then path_glob folder_path (''*'' @ the extension) w
            else (case path_iterdir folder_path w of
                    (Inl e, w1) \<Rightarrow> (Inl e, w1)
                  | (Inr entries, w1) \<Rightarrow> (Inr (filter (is_file w1) entries), w1)))
      of
        (Inl e, w1) \<Rightarrow> (Inr [], logger (Error_listing_files folder_path e) w1)
      | (Inr files, w1) \<Rightarrow>
          (Inr files, logger (Found_files (length files) folder_path) w1))"

definition delete_file :: "path \<Rightarrow> world \<Rightarrow> (exn + bool) \<times> world" where
  "delete_file file_path w =
     (case os_unlink file_path w of
        (Inl e, w1) \<Rightarrow> (Inr False, logger (Error_deleting_file file_path e) w1)
      | (Inr u, w1) \<Rightarrow> (Inr True, logger (File_deleted file_path) w1))"

definition delete_folder :: "path \<Rightarrow> world \<Rightarrow> (exn + bool) \<times> world" where
  "delete_folder folder_path w =
     (case shutil_rmtree folder_path w of
        (Inl e, w1) \<Rightarrow> (Inr False, logger (Error_deleting_folder folder_path e) w1)
      | (Inr u, w1) \<Rightarrow> (Inr True, logger (Folder_deleted folder_path) w1))"

definition backup_name :: "path \<Rightarrow> string \<Rightarrow> string" where
  \<comment> \<open>line 227: \<^verbatim>\<open>f"{excel_file.stem}_backup_{timestamp}{excel_file.suffix}"\<close>\<close>
  "backup_name excel_file timestamp =
     stem excel_file @ ''_backup_'' @ timestamp @ suffix_of excel_file"

definition backup_excel_file ::
  "FileHandler \<Rightarrow> path \<Rightarrow> path option \<Rightarrow> world \<Rightarrow> (exn + string) \<times> world" where
  "backup_excel_file self excel_path backup_folder w =
     (let excel_file = excel_path;
          timestamp = strftime ''%Y%m%d_%H%M%S'' (now w);
          backup_folder' = (case backup_folder of
                              None \<Rightarrow> pjoin (base_folder self) ''backups''
                            | Some d \<Rightarrow> d)
      in case create_folder backup_folder' w of
           (Inl e, w1) \<Rightarrow> (Inr [], logger (Error_creating_backup excel_path e) w1)
         | (Inr b, w1) \<Rightarrow>
             (let backup_path = pjoin backup_folder' (backup_name excel_file timestamp) in
              case copy_file excel_path backup_path w1 of
                (Inl e, w2) \<Rightarrow> (Inr [], logger (Error_creating_backup excel_path e) w2)
              | (Inr b', w2) \<Rightarrow> (Inr (str_path backup_path), w2)))"

definition size_folder :: "nat \<Rightarrow> string" where
  \<comment> \<open>lines 264 to 269\<close>
  "size_folder size' =
     (if size' < 1024 * 1024 then ''small''
      else if size' < 10 * 1024 * 1024 then ''medium''
      else ''large'')"

definition dest_folder ::
  "path \<Rightarrow> string \<Rightarrow> path \<Rightarrow> world \<Rightarrow> (exn + path) \<times> world" where
  \<comment> \<open>lines 254 to 274: the destination folder of one enumerated file\<close>
  "dest_folder source_folder organize_by file_obj w =
     (if organize_by = ''date'' then
        (case os_stat file_obj w of
           (Inl e, w1) \<Rightarrow> (Inl e, w1)
         | (Inr st, w1) \<Rightarrow>
             (case fromtimestamp w1 (st_mtime st) of
                Inl e \<Rightarrow> (Inl e, w1)
              | Inr dt \<Rightarrow>
                  (Inr (pjoin (pjoin source_folder ''organized_by_date'')
                          (strftime ''%Y-%m'' dt)), w1)))
      else if organize_by = ''size'' then
        (case os_stat file_obj w of
           (Inl e, w1) \<Rightarrow> (Inl e, w1)
         | (Inr st, w1) \<Rightarrow>
             (Inr (pjoin (pjoin source_folder ''organized_by_size'')
                     (size_folder (st_size st))), w1))
      else
        (case stem file_obj of
           [] \<Rightarrow> (Inl IndexError, w)
         | c # _ \<Rightarrow>
             (let first_letter = py_upper [c] in
              (Inr (pjoin (pjoin source_folder ''organized_by_name'') first_letter), w))))"

fun organize_loop ::
  "path \<Rightarrow> string \<Rightarrow> path list \<Rightarrow> world \<Rightarrow> (exn + unit) \<times> world" where
  \<comment> \<open>lines 251 to 278; the values of \<^verbatim>\<open>create_folder\<close> and \<^verbatim>\<open>move_file\<close> are not read\<close>
  "organize_loop source_folder organize_by [] w = (Inr (), w)"
| "organize_loop source_folder organize_by (file_path # rest) w =
     (case dest_folder source_folder organize_by file_path w of
        (Inl e, w1) \<Rightarrow> (Inl e, w1)
      | (Inr dest, w1) \<Rightarrow>
          (case create_folder dest w1 of
             (Inl e, w2) \<Rightarrow> (Inl e, w2)
           | (Inr b, w2) \<Rightarrow>
               (let dest_path = pjoin dest (name file_path) in
                case move_file file_path dest_path w2 of
                  (Inl e, w3) \<Rightarrow> (Inl e, w3)
                | (Inr b', w3) \<Rightarrow> organize_loop source_folder organize_by rest w3)))"

definition organize_excel_files :: "path \<Rightarrow> string \<Rightarrow> world \<Rightarrow> (exn + bool) \<times> world" where
  "organize_excel_files source_folder organize_by w =
     (case list_files source_folder (Some ''.xlsx'') w of
        (Inl e, w1) \<Rightarrow> (Inr False, logger (Error_organizing e) w1)
      | (Inr excel_files, w1) \<Rightarrow>
          (case list_files source_folder (Some ''.xls'') w1 of
             (Inl e, w2) \<Rightarrow> (Inr False, logger (Error_organizing e) w2)
           | (Inr xls_files, w2) \<Rightarrow>
               (case organize_loop source_folder organize_by (excel_files @ xls_files) w2 of
                  (Inl e, w3) \<Rightarrow> (Inr False, logger (Error_organizing e) w3)
                | (Inr u, w3) \<Rightarrow> (Inr True, w3))))"

section \<open>Example worlds\<close>

definition st0 :: stat_info where
  "st0 = \<lparr>st_size = 4096, st_mtime = 0\<rparr>"

definition dt0 :: datetime where
  "dt0 = \<lparr>year = 2024, month = 3, day = 15, hour = 10, minute = 0, second = 0\<rparr>"

definition w_sizes :: world where
  \<comment> \<open>a folder with one file just below 1 MiB, one of exactly 1 MiB and one of 10 MiB\<close>
  "w_sizes =
     \<lparr>fs = [([], Dir st0), ([''in''], Dir st0),
            ([''in'', ''a.xlsx''], File \<lparr>st_size = 1048575, st_mtime = 0\<rparr> ''a''),
            ([''in'', ''b.xlsx''], File \<lparr>st_size = 1048576, st_mtime = 0\<rparr> ''b''),
            ([''in'', ''c.xls''], File \<lparr>st_size = 10485760, st_mtime = 0\<rparr> ''c'')],
      fault = (\<lambda>c. None), now = dt0, fromtimestamp = (\<lambda>t. Inr dt0),
      fresh_dir = st0, log = []\<rparr>"

definition w_denied :: world where
  \<comment> \<open>as \<open>w_sizes\<close>, but \<^verbatim>\<open>a.xlsx\<close> may neither be renamed nor copied into its bucket\<close>
  "w_denied =
     w_sizes\<lparr>fault := (\<lambda>c.
        if c = Rename [''in'', ''a.xlsx''] [''in'', ''organized_by_size'', ''small'', ''a.xlsx'']
          then Some EACCES
        else if c = CopyFile [''in'', ''a.xlsx'']
                      [''in'', ''organized_by_size'', ''small'', ''a.xlsx'']
          then Some EACCES
        else None)\<rparr>"

definition w_locked :: world where
  \<comment> \<open>as \<open>w_sizes\<close>, but \<^verbatim>\<open>out\<close> is on another device and \<^verbatim>\<open>a.xlsx\<close> may not be removed\<close>
  "w_locked =
     w_sizes\<lparr>fault := (\<lambda>c.
        if c = Rename [''in'', ''a.xlsx''] [''out'', ''a.xlsx''] then Some EXDEV
        else if c = Unlink [''in'', ''a.xlsx''] then Some EACCES
        else None)\<rparr>"

definition w_nostat :: world where
  \<comment> \<open>as \<open>w_sizes\<close>, but \<^verbatim>\<open>b.xlsx\<close> may not be examined\<close>
  "w_nostat =
     w_sizes\<lparr>fault := (\<lambda>c. if c = Stat [''in'', ''b.xlsx''] then Some EACCES else None)\<rparr>"

definition w_dir :: world where
  \<comment> \<open>a folder holding a workbook, a directory whose name ends in \<^verbatim>\<open>.xlsx\<close> with a workbook
      inside, and a text file\<close>
  "w_dir =
     \<lparr>fs = [([], Dir st0), ([''in''], Dir st0),
            ([''in'', ''report.xlsx''], File \<lparr>st_size = 10, st_mtime = 0\<rparr> ''r''),
            ([''in'', ''archive.xlsx''], Dir st0),
            ([''in'', ''archive.xlsx'', ''old.xlsx''], File \<lparr>st_size = 20, st_mtime = 0\<rparr> ''o''),
            ([''in'', ''notes.txt''], File \<lparr>st_size = 30, st_mtime = 0\<rparr> ''n'')],
      fault = (\<lambda>c. None), now = dt0, fromtimestamp = (\<lambda>t. Inr dt0),
      fresh_dir = st0, log = []\<rparr>"


section \<open>Reading the log\<close>

definition move_attempts :: "log_msg list \<Rightarrow> (path \<times> bool) list" where
  \<comment> \<open>the records of \<^verbatim>\<open>move_file\<close>, in order: the source, and whether the move succeeded\<close>
  "move_attempts ms =
     concat (map (\<lambda>m. case m of
                         File_moved s d \<Rightarrow> [(s, True)]
                       | Error_moving_file s d e \<Rightarrow> [(s, False)]
                       | _ \<Rightarrow> []) ms)"

section \<open>Properties\<close>

lemmas path_defs = pjoin_def parse_path_def parent_def name_def

lemmas query_defs = node_at_def is_dir_def is_file_def exists_path_def parent_check_def
  children_def under_def

lemmas sys_defs = os_mkdir_def os_stat_def os_unlink_def os_scandir_def os_rename_def
  rebase_def

lemmas lib_defs = mkdir1_def path_mkdir.simps shutil_copy2_def shutil_rmtree_def
  shutil_move_def path_glob_def path_iterdir_def

lemmas handler_defs = create_folder_def copy_file_def move_file_def list_files_def
  organize_excel_files_def dest_folder_def logger_def Let_def

subsection \<open>No primitive lets an exception out\<close>

lemma create_folder_total:
  "\<exists>b w'. create_folder p w = (Inr b, w') \<and> b = (\<not> is_error (last (log w')))"
  by (auto simp: create_folder_def logger_def is_error_def split: prod.splits sum.splits)

lemma copy_file_total:
  "\<exists>b w'. copy_file s d w = (Inr b, w') \<and> b = (\<not> is_error (last (log w')))"
  by (auto simp: copy_file_def logger_def is_error_def Let_def split: prod.splits sum.splits)

lemma move_file_total:
  "\<exists>b w'. move_file s d w = (Inr b, w') \<and> b = (\<not> is_error (last (log w')))"
  by (auto simp: move_file_def logger_def is_error_def Let_def split: prod.splits sum.splits)

lemma copy_folder_total:
  "\<exists>b w'. copy_folder s d w = (Inr b, w') \<and> b = (\<not> is_error (last (log w')))"
  by (auto simp: copy_folder_def logger_def is_error_def split: prod.splits sum.splits)

lemma move_folder_total:
  "\<exists>b w'. move_folder s d w = (Inr b, w') \<and> b = (\<not> is_error (last (log w')))"
  by (auto simp: move_folder_def logger_def is_error_def split: prod.splits sum.splits)

lemma list_files_total:
  "\<exists>xs w'. list_files folder ext w = (Inr xs, w') \<and> (is_error (last (log w')) \<longrightarrow> xs = [])"
  by (auto simp: list_files_def logger_def is_error_def split: prod.splits sum.splits)

lemma delete_file_total:
  "\<exists>b w'. delete_file p w = (Inr b, w') \<and> b = (\<not> is_error (last (log w')))"
  by (auto simp: delete_file_def logger_def is_error_def split: prod.splits sum.splits)

lemma delete_folder_total:
  "\<exists>b w'. delete_folder p w = (Inr b, w') \<and> b = (\<not> is_error (last (log w')))"
  by (auto simp: delete_folder_def logger_def is_error_def split: prod.splits sum.splits)

subsection \<open>A folder that was created is there\<close>

lemma os_mkdir_ok:
  "os_mkdir p w = (Inr u, w') \<Longrightarrow>
     node_at w p = None \<and> w' = w\<lparr>fs := fs w @ [(p, Dir (fresh_dir w))]\<rparr>"
  by (auto simp: os_mkdir_def exists_path_def split: option.splits if_splits)

lemma os_mkdir_fail: "os_mkdir p w = (Inl e, w') \<Longrightarrow> w' = w"
  by (auto simp: os_mkdir_def split: option.splits if_splits)

lemma is_dir_after_os_mkdir: "os_mkdir p w = (Inr u, w') \<Longrightarrow> is_dir w' p"
  by (drule os_mkdir_ok) (auto simp: is_dir_def node_at_def map_add_def split: option.splits)

lemma mkdir1_is_dir: "mkdir1 p w = (Inr u, w') \<Longrightarrow> is_dir w' p"
  by (auto simp: mkdir1_def is_dir_after_os_mkdir split: prod.splits sum.splits if_splits)

lemma path_mkdir_is_dir: "path_mkdir p w = (Inr u, w') \<Longrightarrow> is_dir w' p"
proof (induction p w arbitrary: u w' rule: path_mkdir.induct)
  case (1 p w)
  show ?case
  proof (cases "os_mkdir p w")
    case (Pair r w1)
    show ?thesis
    proof (cases r)
      case (Inr v)
      with Pair "1.prems" show ?thesis
        by (simp add: path_mkdir.simps [of p w] is_dir_after_os_mkdir)
    next
      case (Inl e)
      with Pair "1.prems" show ?thesis
        by (auto simp: path_mkdir.simps [of p w] mkdir1_is_dir
              split: if_splits prod.splits sum.splits)
    qed
  qed
qed

lemma create_folder_True_is_dir:
  "create_folder p w = (Inr True, w') \<Longrightarrow> is_dir w' p"
  by (auto simp: create_folder_def logger_def is_dir_def node_at_def
        dest!: path_mkdir_is_dir split: prod.splits sum.splits)

subsection \<open>What a backup returns\<close>

lemma backup_returns_path:
  "fst (backup_excel_file self x bf w) =
     Inr (str_path (pjoin (case bf of None \<Rightarrow> pjoin (base_folder self) ''backups''
                                    | Some d \<Rightarrow> d)
                      (backup_name x (strftime ''%Y%m%d_%H%M%S'' (now w)))))"
proof -
  let ?d = "case bf of None \<Rightarrow> pjoin (base_folder self) ''backups'' | Some d \<Rightarrow> d"
  obtain b w1 where c: "create_folder ?d w = (Inr b, w1)"
    using create_folder_total [of ?d w] by blast
  let ?p = "pjoin ?d (backup_name x (strftime ''%Y%m%d_%H%M%S'' (now w)))"
  obtain b' w2 where c': "copy_file x ?p w1 = (Inr b', w2)"
    using copy_file_total [of x ?p w1] by blast
  show ?thesis
    using c c' by (simp add: backup_excel_file_def Let_def)
qed

lemma timestamp_format:
  "strftime ''%Y%m%d_%H%M%S'' d =
     pad4 (year d) @ pad2 (month d) @ pad2 (day d) @ ''_'' @
     pad2 (hour d) @ pad2 (minute d) @ pad2 (second d)"
  by (simp add: directive_def)

subsection \<open>What creating a folder changes\<close>

lemma os_mkdir_cases:
  "os_mkdir p w = (r, w') \<Longrightarrow>
     (w' = w \<and> (\<exists>e. r = Inl e)) \<or>
     (r = Inr () \<and> p \<noteq> [] \<and> node_at w p = None \<and> fault w (Mkdir p) = None \<and>
      w' = w\<lparr>fs := fs w @ [(p, Dir (fresh_dir w))]\<rparr>)"
  by (auto simp: os_mkdir_def exists_path_def parent_check_def parent_def
        split: option.splits if_splits node.splits)

lemma node_at_append_new:
  "node_at w p = None \<Longrightarrow>
     node_at (w\<lparr>fs := fs w @ [(p, n)]\<rparr>) q = (if q = p then Some n else node_at w q)"
  by (auto simp: node_at_def map_add_def split: option.splits)

lemma mkdir1_cases:
  "mkdir1 p w = (r, w') \<Longrightarrow>
     w' = w \<or>
     (r = Inr () \<and> p \<noteq> [] \<and> node_at w p = None \<and>
      w' = w\<lparr>fs := fs w @ [(p, Dir (fresh_dir w))]\<rparr>)"
  by (auto simp: mkdir1_def split: prod.splits sum.splits if_splits dest!: os_mkdir_cases)

lemma path_mkdir_fields:
  "path_mkdir p w = (r, w') \<Longrightarrow>
     fault w' = fault w \<and> log w' = log w \<and> now w' = now w \<and>
     fresh_dir w' = fresh_dir w \<and> fromtimestamp w' = fromtimestamp w"
proof (induction p w arbitrary: r w' rule: path_mkdir.induct)
  case (1 p w)
  obtain r1 w1 where m: "os_mkdir p w = (r1, w1)" by (cases "os_mkdir p w")
  from os_mkdir_cases [OF m] have f1: "fault w1 = fault w \<and> log w1 = log w \<and> now w1 = now w \<and>
     fresh_dir w1 = fresh_dir w \<and> fromtimestamp w1 = fromtimestamp w" by auto
  show ?case
  proof (cases r1)
    case (Inr u)
    with m "1.prems" f1 show ?thesis by (simp add: path_mkdir.simps [of p w])
  next
    case (Inl e)
    show ?thesis
    proof (cases "e = OSError ENOENT \<and> parent p \<noteq> p")
      case False
      with Inl m "1.prems" f1 show ?thesis
        by (auto simp: path_mkdir.simps [of p w] split: if_splits)
    next
      case True
      obtain r2 w2 where p2: "path_mkdir (parent p) w1 = (r2, w2)"
        by (cases "path_mkdir (parent p) w1")
      from "1.IH" [of r1 w1 e r2 w2] m Inl p2 True
      have f2: "fault w2 = fault w1 \<and> log w2 = log w1 \<and> now w2 = now w1 \<and>
         fresh_dir w2 = fresh_dir w1 \<and> fromtimestamp w2 = fromtimestamp w1" by simp
      show ?thesis
      proof (cases r2)
        case (Inl e2)
        with True \<open>r1 = Inl e\<close> m p2 "1.prems" f1 f2 show ?thesis
          by (simp add: path_mkdir.simps [of p w])
      next
        case (Inr u)
        with True \<open>r1 = Inl e\<close> m p2 "1.prems" have m1: "mkdir1 p w2 = (r, w')"
          by (simp add: path_mkdir.simps [of p w])
        from mkdir1_cases [OF m1] f1 f2 show ?thesis by auto
      qed
    qed
  qed
qed

lemma path_mkdir_invariant:
  assumes "path_mkdir p w = (r, w')" and "R w"
    and "\<And>q v. prefix q p \<Longrightarrow> q \<noteq> [] \<Longrightarrow> node_at v q = None \<Longrightarrow> R v \<Longrightarrow>
           R (v\<lparr>fs := fs v @ [(q, Dir (fresh_dir v))]\<rparr>)"
  shows "R w'"
  using assms
proof (induction p w arbitrary: r w' rule: path_mkdir.induct)
  case (1 p w)
  note step = "1.prems"(3)
  obtain r1 w1 where m: "os_mkdir p w = (r1, w1)" by (cases "os_mkdir p w")
  from os_mkdir_cases [OF m] step [of p w] "1.prems"(2) have R1: "R w1" by auto
  show ?case
  proof (cases r1)
    case (Inr u)
    with m "1.prems"(1) R1 show ?thesis by (simp add: path_mkdir.simps [of p w])
  next
    case (Inl e)
    show ?thesis
    proof (cases "e = OSError ENOENT \<and> parent p \<noteq> p")
      case False
      with Inl m "1.prems"(1) R1 show ?thesis
        by (auto simp: path_mkdir.simps [of p w] split: if_splits)
    next
      case True
      obtain r2 w2 where p2: "path_mkdir (parent p) w1 = (r2, w2)"
        by (cases "path_mkdir (parent p) w1")
      have pre: "\<And>q. prefix q (parent p) \<Longrightarrow> prefix q p"
        by (metis parent_def prefix_order.trans prefixeq_butlast)
      have R2: "R w2"
        using "1.IH" [of r1 w1 e r2 w2] m Inl p2 True R1 step pre by simp
      show ?thesis
      proof (cases r2)
        case (Inl e2)
        with True \<open>r1 = Inl e\<close> m p2 "1.prems"(1) R2 show ?thesis
          by (simp add: path_mkdir.simps [of p w])
      next
        case (Inr u)
        with True \<open>r1 = Inl e\<close> m p2 "1.prems"(1) have m1: "mkdir1 p w2 = (r, w')"
          by (simp add: path_mkdir.simps [of p w])
        from mkdir1_cases [OF m1] R2 step [of p w2] show ?thesis by auto
      qed
    qed
  qed
qed

lemma path_mkdir_keeps:
  assumes "path_mkdir p w = (r, w')" and "node_at w q = Some n"
  shows "node_at w' q = Some n"
  by (rule path_mkdir_invariant [OF assms(1), where R = "\<lambda>v. node_at v q = Some n"])
     (auto simp: assms(2) node_at_append_new)

lemma path_mkdir_node:
  assumes "path_mkdir p w = (r, w')"
  shows "node_at w' q = node_at w q \<or>
         (node_at w q = None \<and> prefix q p \<and> q \<noteq> [] \<and> (\<exists>s. node_at w' q = Some (Dir s)))"
  by (rule path_mkdir_invariant [OF assms, where R = "\<lambda>v. node_at v q = node_at w q \<or>
         (node_at w q = None \<and> prefix q p \<and> q \<noteq> [] \<and> (\<exists>s. node_at v q = Some (Dir s)))"])
     (auto simp: node_at_append_new)




subsection \<open>What moving and copying a file change\<close>

lemma node_at_fs [simp]: "node_at (w\<lparr>fs := xs\<rparr>) q = map_of xs q"
  by (simp add: node_at_def)

lemma node_at_logger [simp]: "node_at (logger m w) q = node_at w q"
  by (simp add: node_at_def logger_def)

lemma is_dir_logger [simp]: "is_dir (logger m w) q = is_dir w q"
  by (simp add: is_dir_def)

lemma map_of_update_delete:
  "map_of (AList.update k v xs) q = (if q = k then Some v else map_of xs q)"
  "map_of (AList.delete k xs) q = (if q = k then None else map_of xs q)"
  by (simp_all add: update_conv' delete_conv')

lemma os_rename_file:
  "node_at w s = Some (File st c) \<Longrightarrow> os_rename s d w = (r, w') \<Longrightarrow>
     ((\<exists>e. r = Inl e) \<and> w' = w) \<or> (r = Inr () \<and> s = d \<and> w' = w) \<or>
     (r = Inr () \<and> s \<noteq> d \<and>
      w' = w\<lparr>fs := AList.update d (File st c) (AList.delete s (fs w))\<rparr>)"
  by (auto simp: os_rename_def split: option.splits if_splits)

lemma os_unlink_cases:
  "os_unlink s w = (r, w') \<Longrightarrow>
     ((\<exists>e. r = Inl e) \<and> w' = w) \<or> (r = Inr () \<and> w' = w\<lparr>fs := AList.delete s (fs w)\<rparr>)"
  by (auto simp: os_unlink_def split: option.splits node.splits)

lemma shutil_copy2_cases:
  "shutil_copy2 s d w = (r, w') \<Longrightarrow>
     ((\<exists>e. r = Inl e) \<and> w' = w) \<or>
     (\<exists>st c. r = Inr () \<and> node_at w s = Some (File st c) \<and>
        (if is_dir w d then pjoin d (name s) else d) \<noteq> s \<and>
        w' = w\<lparr>fs := AList.update (if is_dir w d then pjoin d (name s) else d)
                        (File st c) (fs w)\<rparr>)"
  by (auto simp: shutil_copy2_def Let_def split: option.splits node.splits if_splits)

lemma shutil_move_file:
  assumes f: "node_at w s = Some (File st c)" and m: "shutil_move s d w = (r, w')"
  shows "(node_at w' s = Some (File st c) \<or>
          (r = Inr () \<and> node_at w' s = None)) \<and>
         (r = Inr () \<and> s \<noteq> d \<and> \<not> is_dir w d \<longrightarrow>
            node_at w' d = Some (File st c) \<and> node_at w' s = None) \<and>
         (node_at w' s \<noteq> Some (File st c) \<longrightarrow>
            node_at w' (if is_dir w d then pjoin d (name s) else d) = Some (File st c)) \<and>
         ((\<exists>e. r = Inl e) \<longrightarrow> node_at w' s = Some (File st c))"
proof (cases "is_dir w d \<and> s = d")
  case True
  with f show ?thesis by (simp add: is_dir_def)
next
  case False
  define rd where "rd = (if is_dir w d then pjoin d (name s) else d)"
  have sm: "shutil_move s d w =
     (if is_dir w d \<and> exists_path w rd then (Inl ShutilError, w)
      else (case os_rename s rd w of
              (Inr u, w1) \<Rightarrow> (Inr (), w1)
            | (Inl e, w1) \<Rightarrow>
                if is_dir w1 s then
                  (if under s d then (Inl ShutilError, w1)
                   else (case shutil_copytree s rd False w1 of
                           (Inl e', w2) \<Rightarrow> (Inl e', w2)
                         | (Inr u, w2) \<Rightarrow> shutil_rmtree s w2))
                else
                  (case shutil_copy2 s rd w1 of
                     (Inl e', w2) \<Rightarrow> (Inl e', w2)
                   | (Inr u, w2) \<Rightarrow> os_unlink s w2)))"
    unfolding rd_def shutil_move_def Let_def using False by simp
  have rdd: "\<not> is_dir w d \<Longrightarrow> rd = d" by (simp add: rd_def)
  have goal: "(node_at w' s = Some (File st c) \<or> (r = Inr () \<and> node_at w' s = None)) \<and>
         (r = Inr () \<and> s \<noteq> d \<and> \<not> is_dir w d \<longrightarrow>
            node_at w' d = Some (File st c) \<and> node_at w' s = None) \<and>
         (node_at w' s \<noteq> Some (File st c) \<longrightarrow> node_at w' rd = Some (File st c)) \<and>
         ((\<exists>e. r = Inl e) \<longrightarrow> node_at w' s = Some (File st c))"
  proof (cases "is_dir w d \<and> exists_path w rd")
    case True
    with m f sm show ?thesis by auto
  next
    case nex: False
    obtain r1 w1 where rn: "os_rename s rd w = (r1, w1)" by (cases "os_rename s rd w")
    show ?thesis
    proof (cases r1)
      case (Inr u)
      with nex rn m sm have e: "r = Inr ()" "w' = w1" by auto
      from os_rename_file [OF f rn] Inr e f rdd show ?thesis
        by (auto simp: map_of_update_delete)
    next
      case (Inl e1)
      with os_rename_file [OF f rn] have w1: "w1 = w" by auto
      obtain r2 w2 where cp: "shutil_copy2 s rd w = (r2, w2)"
        by (cases "shutil_copy2 s rd w")
      have nd: "\<not> is_dir w rd" using nex by (auto simp: is_dir_def exists_path_def rd_def)
      have ns: "\<not> is_dir w s" using f by (simp add: is_dir_def)
      show ?thesis
      proof (cases r2)
        case (Inl e2)
        with shutil_copy2_cases [OF cp] have "w2 = w" by auto
        with Inl \<open>r1 = Inl e1\<close> rn w1 cp nex ns m f sm show ?thesis by auto
      next
        case (Inr u)
        with shutil_copy2_cases [OF cp] nd f
        have w2: "w2 = w\<lparr>fs := AList.update rd (File st c) (fs w)\<rparr>" and ne: "rd \<noteq> s"
          by auto
        from Inr \<open>r1 = Inl e1\<close> rn w1 cp nex ns m sm
        have ul: "os_unlink s w2 = (r, w')" by auto
        from os_unlink_cases [OF ul] w2 ne f rdd show ?thesis
          by (auto simp: map_of_update_delete node_at_def)
      qed
    qed
  qed
  then show ?thesis by (simp add: rd_def)
qed

subsection \<open>What the file primitives change\<close>

lemma create_folder_cases:
  "create_folder p w = (r, w') \<Longrightarrow>
     \<exists>r0 w0 m. path_mkdir p w = (r0, w0) \<and> w' = logger m w0 \<and>
       r = Inr (case r0 of Inl e \<Rightarrow> False | Inr u \<Rightarrow> True)"
  by (auto simp: create_folder_def split: prod.splits sum.splits)

lemma not_prefix_parent: "d \<noteq> [] \<Longrightarrow> \<not> prefix d (parent d)"
  unfolding parent_def
  by (metis prefix_length_le length_butlast length_greater_0_conv diff_less not_le
        zero_less_one)

lemma create_folder_parent_is_dir:
  assumes "create_folder (parent d) w = (r, w')" and "\<not> is_dir w d"
  shows "\<not> is_dir w' d"
proof -
  from create_folder_cases [OF assms(1)] obtain r0 w0 m where
    p: "path_mkdir (parent d) w = (r0, w0)" and w': "w' = logger m w0" by blast
  from path_mkdir_node [OF p, of d] not_prefix_parent [of d] assms(2)
  have "\<not> is_dir w0 d" by (auto simp: is_dir_def)
  with w' show ?thesis by simp
qed

lemma create_folder_keeps:
  assumes "create_folder p w = (r, w')" and "node_at w q = Some n"
  shows "node_at w' q = Some n"
proof -
  from create_folder_cases [OF assms(1)] obtain r0 w0 m where
    p: "path_mkdir p w = (r0, w0)" and w': "w' = logger m w0" by blast
  from path_mkdir_keeps [OF p assms(2)] w' show ?thesis by simp
qed


lemma move_file_effect:
  assumes f: "node_at w s = Some (File st c)" and m: "move_file s d w = (Inr b, w')"
  shows "(\<not> b \<longrightarrow> node_at w' s = Some (File st c)) \<and>
         (b \<and> s \<noteq> d \<and> \<not> is_dir w d \<longrightarrow>
            node_at w' d = Some (File st c) \<and> node_at w' s = None) \<and>
         (node_at w' s \<noteq> Some (File st c) \<longrightarrow>
            b \<and> node_at w' s = None \<and>
            (node_at w' d = Some (File st c) \<or>
             node_at w' (pjoin d (name s)) = Some (File st c)))"
proof -
  obtain b0 w1 where c: "create_folder (parent d) w = (Inr b0, w1)"
    using create_folder_total [of "parent d" w] by blast
  obtain r w2 where sm: "shutil_move s d w1 = (r, w2)" by (cases "shutil_move s d w1")
  from create_folder_keeps [OF c f] have f1: "node_at w1 s = Some (File st c)" .
  have d1: "\<not> is_dir w d \<Longrightarrow> \<not> is_dir w1 d"
    using create_folder_parent_is_dir [OF c] by simp
  from m c sm have w': "\<exists>l. w' = logger l w2" and b: "b = (case r of Inl e \<Rightarrow> False | Inr u \<Rightarrow> True)"
    by (auto simp: move_file_def Let_def split: sum.splits)
  from shutil_move_file [OF f1 sm] w' b d1 show ?thesis
    by (cases r) (auto split: if_splits)
qed


subsection \<open>The loop of the organize operation\<close>

lemma organize_excel_files_loop:
  "\<exists>xs w1 ys w2.
     list_files source_folder (Some ''.xlsx'') w = (Inr xs, w1) \<and>
     list_files source_folder (Some ''.xls'') w1 = (Inr ys, w2) \<and>
     organize_excel_files source_folder organize_by w =
       (case organize_loop source_folder organize_by (xs @ ys) w2 of
          (Inl e, w3) \<Rightarrow> (Inr False, logger (Error_organizing e) w3)
        | (Inr u, w3) \<Rightarrow> (Inr True, w3))"
proof -
  obtain xs w1 where 1: "list_files source_folder (Some ''.xlsx'') w = (Inr xs, w1)"
    using list_files_total [of source_folder "Some ''.xlsx''" w] by blast
  obtain ys w2 where 2: "list_files source_folder (Some ''.xls'') w1 = (Inr ys, w2)"
    using list_files_total [of source_folder "Some ''.xls''" w1] by blast
  from 1 2 show ?thesis by (simp add: organize_excel_files_def)
qed

lemma organize_loop_step:
  assumes "dest_folder source_folder organize_by f w = (Inr D, w1)"
  shows "\<exists>b w2 b' w3.
           create_folder D w1 = (Inr b, w2) \<and>
           move_file f (pjoin D (name f)) w2 = (Inr b', w3) \<and>
           organize_loop source_folder organize_by (f # rest) w =
             organize_loop source_folder organize_by rest w3"
proof -
  obtain b w2 where 1: "create_folder D w1 = (Inr b, w2)"
    using create_folder_total [of D w1] by blast
  obtain b' w3 where 2: "move_file f (pjoin D (name f)) w2 = (Inr b', w3)"
    using move_file_total [of f "pjoin D (name f)" w2] by blast
  from assms 1 2 show ?thesis by (simp add: Let_def)
qed

lemma organize_loop_raise:
  "dest_folder source_folder organize_by f w = (Inl e, w1) \<Longrightarrow>
     organize_loop source_folder organize_by (f # rest) w = (Inl e, w1)"
  by simp

lemma dest_folder_world:
  "dest_folder source_folder organize_by f w = (r, w1) \<Longrightarrow> w1 = w"
  by (auto simp: dest_folder_def os_stat_def Let_def
        split: if_splits prod.splits sum.splits option.splits node.splits list.splits)

subsection \<open>What the organize loop logs\<close>

lemma move_attempts_append [simp]:
  "move_attempts (xs @ ys) = move_attempts xs @ move_attempts ys"
  by (simp add: move_attempts_def)

lemma move_attempts_simps [simp]:
  "move_attempts [] = []"
  "move_attempts (File_moved s d # ms) = (s, True) # move_attempts ms"
  "move_attempts (Error_moving_file s d e # ms) = (s, False) # move_attempts ms"
  "move_attempts (Folder_created_verified p # ms) = move_attempts ms"
  "move_attempts (Error_creating_folder p e # ms) = move_attempts ms"
  "move_attempts (Error_organizing e # ms) = move_attempts ms"
  "move_attempts (Found_files n p # ms) = move_attempts ms"
  "move_attempts (Error_listing_files p e # ms) = move_attempts ms"
  by (simp_all add: move_attempts_def)

lemma shutil_copytree_log: "shutil_copytree s d b w = (r, w') \<Longrightarrow> log w' = log w"
  by (auto simp: shutil_copytree_def Let_def
        split: option.splits node.splits if_splits prod.splits sum.splits
        dest!: path_mkdir_fields)

lemma shutil_rmtree_log: "shutil_rmtree p w = (r, w') \<Longrightarrow> log w' = log w"
  by (auto simp: shutil_rmtree_def split: option.splits node.splits if_splits)

lemma os_rename_log: "os_rename s d w = (r, w') \<Longrightarrow> log w' = log w"
  by (auto simp: os_rename_def split: option.splits node.splits if_splits)

lemma shutil_copy2_log: "shutil_copy2 s d w = (r, w') \<Longrightarrow> log w' = log w"
  by (auto dest!: shutil_copy2_cases)

lemma os_unlink_log: "os_unlink s w = (r, w') \<Longrightarrow> log w' = log w"
  by (auto dest!: os_unlink_cases)

lemma shutil_move_log:
  assumes "shutil_move s d w = (r, w')"
  shows "log w' = log w"
proof -
  define rd where "rd = (if is_dir w d then pjoin d (name s) else d)"
  obtain r1 w1 where rn: "os_rename s rd w = (r1, w1)" by (cases "os_rename s rd w")
  obtain r2 w2 where ct: "shutil_copytree s rd False w1 = (r2, w2)"
    by (cases "shutil_copytree s rd False w1")
  obtain r3 w3 where rt: "shutil_rmtree s w2 = (r3, w3)" by (cases "shutil_rmtree s w2")
  obtain r4 w4 where cp: "shutil_copy2 s rd w1 = (r4, w4)" by (cases "shutil_copy2 s rd w1")
  obtain r5 w5 where ul: "os_unlink s w4 = (r5, w5)" by (cases "os_unlink s w4")
  obtain r6 w6 where rn': "os_rename s d w = (r6, w6)" by (cases "os_rename s d w")
  note l = os_rename_log [OF rn] shutil_copytree_log [OF ct] shutil_rmtree_log [OF rt]
    shutil_copy2_log [OF cp] os_unlink_log [OF ul] os_rename_log [OF rn']
  from assms have "w' = w \<or> w' = w1 \<or> w' = w2 \<or> w' = w3 \<or> w' = w4 \<or> w' = w5 \<or> w' = w6"
    unfolding shutil_move_def Let_def rd_def [symmetric]
    using rn ct rt cp ul rn' by (auto split: if_splits sum.splits)
  with l show ?thesis by auto
qed

lemma create_folder_log:
  "create_folder p w = (r, w') \<Longrightarrow>
     \<exists>m. log w' = log w @ [m] \<and> move_attempts [m] = []"
  by (auto simp: create_folder_def logger_def split: prod.splits sum.splits
        dest!: path_mkdir_fields)

lemma move_file_log:
  assumes "move_file s d w = (Inr b, w')"
  shows "\<exists>new e. log w' = log w @ new \<and> move_attempts new = [(s, b)] \<and>
           last (log w') = (if b then File_moved s d else Error_moving_file s d e)"
proof -
  obtain b0 w1 where c: "create_folder (parent d) w = (Inr b0, w1)"
    using create_folder_total [of "parent d" w] by blast
  obtain r w2 where sm: "shutil_move s d w1 = (r, w2)" by (cases "shutil_move s d w1")
  from create_folder_log [OF c] obtain m where m: "log w1 = log w @ [m]" "move_attempts [m] = []"
    by blast
  from shutil_move_log [OF sm] have l2: "log w2 = log w1" .
  show ?thesis
  proof (cases r)
    case (Inl e)
    with assms c sm have "w' = logger (Error_moving_file s d e) w2" "\<not> b"
      by (auto simp: move_file_def Let_def)
    with m l2 have "log w' = log w @ [m, Error_moving_file s d e] \<and>
                    move_attempts [m, Error_moving_file s d e] = [(s, b)] \<and>
                    last (log w') = (if b then File_moved s d else Error_moving_file s d e)"
      using move_attempts_append [of "[m]" "[Error_moving_file s d e]"]
      by (simp add: logger_def)
    then show ?thesis by blast
  next
    case (Inr u)
    with assms c sm have "w' = logger (File_moved s d) w2" "b"
      by (auto simp: move_file_def Let_def)
    with m l2 have "log w' = log w @ [m, File_moved s d] \<and>
                    move_attempts [m, File_moved s d] = [(s, b)] \<and>
                    last (log w') = (if b then File_moved s d else Error_moving_file s d undefined)"
      using move_attempts_append [of "[m]" "[File_moved s d]"]
      by (simp add: logger_def)
    then show ?thesis by blast
  qed
qed

lemma organize_loop_log:
  "organize_loop source_folder organize_by files w = (r, w') \<Longrightarrow>
     \<exists>new. log w' = log w @ new \<and>
           prefix (map fst (move_attempts new)) files \<and>
           (r = Inr () \<longrightarrow> map fst (move_attempts new) = files)"
proof (induction files arbitrary: w)
  case Nil
  then show ?case by auto
next
  case (Cons f rest)
  obtain r0 w0 where d: "dest_folder source_folder organize_by f w = (r0, w0)"
    by (cases "dest_folder source_folder organize_by f w")
  from dest_folder_world [OF d] have w0: "w0 = w" .
  show ?case
  proof (cases r0)
    case (Inl e)
    with d Cons.prems have "w' = w" "r = Inl e" by (simp_all add: w0)
    then show ?thesis by auto
  next
    case (Inr D)
    with d w0 have d': "dest_folder source_folder organize_by f w = (Inr D, w)" by simp
    from organize_loop_step [OF d', of rest] obtain b w2 b' w3 where
      c: "create_folder D w = (Inr b, w2)" and
      m: "move_file f (pjoin D (name f)) w2 = (Inr b', w3)" and
      l: "organize_loop source_folder organize_by (f # rest) w =
            organize_loop source_folder organize_by rest w3" by blast
    from create_folder_log [OF c] obtain m0 where
      m0: "log w2 = log w @ [m0]" "move_attempts [m0] = []" by blast
    from move_file_log [OF m] obtain n1 where
      n1: "log w3 = log w2 @ n1" "move_attempts n1 = [(f, b')]" by blast
    from l Cons.prems have "organize_loop source_folder organize_by rest w3 = (r, w')"
      by simp
    from Cons.IH [OF this] obtain n2 where
      n2: "log w' = log w3 @ n2" "prefix (map fst (move_attempts n2)) rest"
          "r = Inr () \<longrightarrow> map fst (move_attempts n2) = rest" by blast
    have "log w' = log w @ ([m0] @ n1 @ n2)" using m0 n1 n2 by simp
    moreover have "map fst (move_attempts ([m0] @ n1 @ n2)) = f # map fst (move_attempts n2)"
      using m0(2) n1(2) by (simp only: move_attempts_append) simp
    ultimately show ?thesis using n2(2,3) by (metis Cons_prefix_Cons)
  qed
qed

lemma organize_loop_Inl:
  "organize_loop source_folder organize_by files w = (Inl e, w') \<Longrightarrow>
     \<exists>f\<in>set files. \<exists>v. dest_folder source_folder organize_by f v = (Inl e, v)"
proof (induction files arbitrary: w)
  case Nil
  then show ?case by simp
next
  case (Cons f rest)
  obtain r0 w0 where d: "dest_folder source_folder organize_by f w = (r0, w0)"
    by (cases "dest_folder source_folder organize_by f w")
  from dest_folder_world [OF d] have w0: "w0 = w" .
  show ?case
  proof (cases r0)
    case (Inl e0)
    with d Cons.prems w0 have "dest_folder source_folder organize_by f w = (Inl e, w)"
      by simp
    then show ?thesis by auto
  next
    case (Inr D)
    with d w0 have d': "dest_folder source_folder organize_by f w = (Inr D, w)" by simp
    from organize_loop_step [OF d', of rest] Cons.prems obtain w3 where
      "organize_loop source_folder organize_by rest w3 = (Inl e, w')" by auto
    from Cons.IH [OF this] show ?thesis by auto
  qed
qed

subsection \<open>Buckets by size\<close>

lemma pjoin_size_folder:
  "pjoin (pjoin p ''organized_by_size'') (size_folder n) =
     p @ [''organized_by_size'', size_folder n]"
  by (simp add: size_folder_def path_defs)

text \<open>
  C1. Under the criterion \<^verbatim>\<open>size\<close> the bucket of a file is decided by strict comparisons of
  its size in bytes: below 1,048,576 it is \<^verbatim>\<open>small\<close>, from 1,048,576 and below 10,485,760 it
  is \<^verbatim>\<open>medium\<close>, and from 10,485,760 on it is \<^verbatim>\<open>large\<close>; so 1,048,575 bytes are small,
  1,048,576 bytes medium and 10,485,760 bytes large. The organize operation lists the
  \<^verbatim>\<open>.xlsx\<close> and then the \<^verbatim>\<open>.xls\<close> entries of the source folder and runs its loop over them.
  For a file whose \<^verbatim>\<open>stat\<close> succeeds, one turn of the loop computes the destination folder
  \<^verbatim>\<open>organized_by_size/<bucket>\<close> inside the source folder, creates that folder (when the
  creation reports success it is there), calls \<^verbatim>\<open>move_file\<close> towards the file's name inside
  it, and goes on with the remaining files. When that move reports success on a regular
  file, and no directory stands at the destination path, the file with its content is at
  \<^verbatim>\<open>organized_by_size/<bucket>/<name>\<close> afterwards and no longer at its old place.
\<close>

theorem size_bucket_thresholds:
  "(size' < 1048576 \<longrightarrow> size_folder size' = ''small'') \<and>
   (1048576 \<le> size' \<and> size' < 10485760 \<longrightarrow> size_folder size' = ''medium'') \<and>
   (10485760 \<le> size' \<longrightarrow> size_folder size' = ''large'') \<and>
   size_folder 1048576 = ''medium'' \<and>
   size_folder 1048575 = ''small'' \<and>
   size_folder 10485760 = ''large'' \<and>
   (os_stat file_obj w = (Inr st, w) \<longrightarrow>
      dest_folder source_folder ''size'' file_obj w =
        (Inr (source_folder @ [''organized_by_size'', size_folder (st_size st)]), w) \<and>
      (\<exists>b w2 b' w3.
         create_folder (source_folder @ [''organized_by_size'', size_folder (st_size st)]) w =
           (Inr b, w2) \<and>
         (b \<longrightarrow> is_dir w2 (source_folder @ [''organized_by_size'', size_folder (st_size st)])) \<and>
         move_file file_obj
           (pjoin (source_folder @ [''organized_by_size'', size_folder (st_size st)])
              (name file_obj)) w2 = (Inr b', w3) \<and>
         organize_loop source_folder ''size'' (file_obj # rest) w =
           organize_loop source_folder ''size'' rest w3 \<and>
         (\<forall>c. node_at w file_obj = Some (File st c) \<and> b' \<and>
              \<not> is_dir w2 (pjoin (source_folder @
                                   [''organized_by_size'', size_folder (st_size st)])
                              (name file_obj)) \<and>
              file_obj \<noteq> pjoin (source_folder @
                                  [''organized_by_size'', size_folder (st_size st)])
                             (name file_obj) \<longrightarrow>
              node_at w3 (pjoin (source_folder @
                                   [''organized_by_size'', size_folder (st_size st)])
                            (name file_obj)) = Some (File st c) \<and>
              node_at w3 file_obj = None))) \<and>
   (\<exists>xs w1 ys w2.
      list_files source_folder (Some ''.xlsx'') w = (Inr xs, w1) \<and>
      list_files source_folder (Some ''.xls'') w1 = (Inr ys, w2) \<and>
      organize_excel_files source_folder ''size'' w =
        (case organize_loop source_folder ''size'' (xs @ ys) w2 of
           (Inl e, w3) \<Rightarrow> (Inr False, logger (Error_organizing e) w3)
         | (Inr u, w3) \<Rightarrow> (Inr True, w3)))"
proof -
  have thr: "(size' < 1048576 \<longrightarrow> size_folder size' = ''small'') \<and>
   (1048576 \<le> size' \<and> size' < 10485760 \<longrightarrow> size_folder size' = ''medium'') \<and>
   (10485760 \<le> size' \<longrightarrow> size_folder size' = ''large'') \<and>
   size_folder 1048576 = ''medium'' \<and>
   size_folder 1048575 = ''small'' \<and>
   size_folder 10485760 = ''large''"
    by (simp add: size_folder_def)
  have step: "os_stat file_obj w = (Inr st, w) \<longrightarrow>
      dest_folder source_folder ''size'' file_obj w =
        (Inr (source_folder @ [''organized_by_size'', size_folder (st_size st)]), w) \<and>
      (\<exists>b w2 b' w3.
         create_folder (source_folder @ [''organized_by_size'', size_folder (st_size st)]) w =
           (Inr b, w2) \<and>
         (b \<longrightarrow> is_dir w2 (source_folder @ [''organized_by_size'', size_folder (st_size st)])) \<and>
         move_file file_obj
           (pjoin (source_folder @ [''organized_by_size'', size_folder (st_size st)])
              (name file_obj)) w2 = (Inr b', w3) \<and>
         organize_loop source_folder ''size'' (file_obj # rest) w =
           organize_loop source_folder ''size'' rest w3 \<and>
         (\<forall>c. node_at w file_obj = Some (File st c) \<and> b' \<and>
              \<not> is_dir w2 (pjoin (source_folder @
                                   [''organized_by_size'', size_folder (st_size st)])
                              (name file_obj)) \<and>
              file_obj \<noteq> pjoin (source_folder @
                                  [''organized_by_size'', size_folder (st_size st)])
                             (name file_obj) \<longrightarrow>
              node_at w3 (pjoin (source_folder @
                                   [''organized_by_size'', size_folder (st_size st)])
                            (name file_obj)) = Some (File st c) \<and>
              node_at w3 file_obj = None))"
  proof
    assume s: "os_stat file_obj w = (Inr st, w)"
    let ?D = "source_folder @ [''organized_by_size'', size_folder (st_size st)]"
    let ?P = "pjoin ?D (name file_obj)"
    from s have d: "dest_folder source_folder ''size'' file_obj w = (Inr ?D, w)"
      by (simp add: dest_folder_def pjoin_size_folder)
    from organize_loop_step [OF d, of rest] obtain b w2 b' w3 where
      c: "create_folder ?D w = (Inr b, w2)" and
      m: "move_file file_obj ?P w2 = (Inr b', w3)" and
      l: "organize_loop source_folder ''size'' (file_obj # rest) w =
            organize_loop source_folder ''size'' rest w3" by blast
    have i: "b \<longrightarrow> is_dir w2 ?D"
      using c create_folder_True_is_dir [of ?D w w2] by simp
    have e: "\<forall>c. node_at w file_obj = Some (File st c) \<and> b' \<and> \<not> is_dir w2 ?P \<and>
                 file_obj \<noteq> ?P \<longrightarrow>
               node_at w3 ?P = Some (File st c) \<and> node_at w3 file_obj = None"
    proof (intro allI impI)
      fix ct
      assume a: "node_at w file_obj = Some (File st ct) \<and> b' \<and> \<not> is_dir w2 ?P \<and>
                 file_obj \<noteq> ?P"
      then have "node_at w2 file_obj = Some (File st ct)"
        using create_folder_keeps [OF c] by blast
      from move_file_effect [OF this m] a
      show "node_at w3 ?P = Some (File st ct) \<and> node_at w3 file_obj = None" by blast
    qed
    from d c i m l e show "dest_folder source_folder ''size'' file_obj w = (Inr ?D, w) \<and>
      (\<exists>b w2 b' w3.
         create_folder ?D w = (Inr b, w2) \<and> (b \<longrightarrow> is_dir w2 ?D) \<and>
         move_file file_obj ?P w2 = (Inr b', w3) \<and>
         organize_loop source_folder ''size'' (file_obj # rest) w =
           organize_loop source_folder ''size'' rest w3 \<and>
         (\<forall>c. node_at w file_obj = Some (File st c) \<and> b' \<and> \<not> is_dir w2 ?P \<and>
              file_obj \<noteq> ?P \<longrightarrow>
              node_at w3 ?P = Some (File st c) \<and> node_at w3 file_obj = None))"
      by blast
  qed
  from thr step organize_excel_files_loop [of source_folder w "''size''"]
  show ?thesis by blast
qed

theorem size_bucket_thresholds_witness:
  "((2048::nat) < 1048576 \<and> size_folder 2048 = ''small'') \<and>
   ((1048576::nat) \<le> 5000000 \<and> (5000000::nat) < 10485760 \<and>
      size_folder 5000000 = ''medium'') \<and>
   ((10485760::nat) \<le> 20971520 \<and> size_folder 20971520 = ''large'') \<and>
   os_stat [''in'', ''b.xlsx''] w_sizes =
     (Inr \<lparr>st_size = 1048576, st_mtime = 0\<rparr>, w_sizes) \<and>
   dest_folder [''in''] ''size'' [''in'', ''b.xlsx''] w_sizes =
     (Inr [''in'', ''organized_by_size'', ''medium''], w_sizes) \<and>
   fst (create_folder [''in'', ''organized_by_size'', ''medium''] w_sizes) = Inr True \<and>
   is_dir (snd (create_folder [''in'', ''organized_by_size'', ''medium''] w_sizes))
     [''in'', ''organized_by_size'', ''medium''] \<and>
   node_at w_sizes [''in'', ''b.xlsx''] =
     Some (File \<lparr>st_size = 1048576, st_mtime = 0\<rparr> ''b'') \<and>
   fst (move_file [''in'', ''b.xlsx''] [''in'', ''organized_by_size'', ''medium'', ''b.xlsx'']
          (snd (create_folder [''in'', ''organized_by_size'', ''medium''] w_sizes))) =
     Inr True \<and>
   \<not> is_dir (snd (create_folder [''in'', ''organized_by_size'', ''medium''] w_sizes))
       [''in'', ''organized_by_size'', ''medium'', ''b.xlsx''] \<and>
   [''in'', ''b.xlsx''] \<noteq> [''in'', ''organized_by_size'', ''medium'', ''b.xlsx''] \<and>
   node_at (snd (move_file [''in'', ''b.xlsx'']
                   [''in'', ''organized_by_size'', ''medium'', ''b.xlsx'']
                   (snd (create_folder [''in'', ''organized_by_size'', ''medium''] w_sizes))))
     [''in'', ''organized_by_size'', ''medium'', ''b.xlsx''] =
     Some (File \<lparr>st_size = 1048576, st_mtime = 0\<rparr> ''b'') \<and>
   node_at (snd (move_file [''in'', ''b.xlsx'']
                   [''in'', ''organized_by_size'', ''medium'', ''b.xlsx'']
                   (snd (create_folder [''in'', ''organized_by_size'', ''medium''] w_sizes))))
     [''in'', ''b.xlsx''] = None \<and>
   fst (organize_excel_files [''in''] ''size'' w_sizes) = Inr True \<and>
   node_at (snd (organize_excel_files [''in''] ''size'' w_sizes))
     [''in'', ''organized_by_size'', ''small'', ''a.xlsx''] =
     Some (File \<lparr>st_size = 1048575, st_mtime = 0\<rparr> ''a'') \<and>
   node_at (snd (organize_excel_files [''in''] ''size'' w_sizes))
     [''in'', ''organized_by_size'', ''medium'', ''b.xlsx''] =
     Some (File \<lparr>st_size = 1048576, st_mtime = 0\<rparr> ''b'') \<and>
   node_at (snd (organize_excel_files [''in''] ''size'' w_sizes))
     [''in'', ''organized_by_size'', ''large'', ''c.xls''] =
     Some (File \<lparr>st_size = 10485760, st_mtime = 0\<rparr> ''c'') \<and>
   node_at (snd (organize_excel_files [''in''] ''size'' w_sizes)) [''in'', ''b.xlsx''] = None"
proof -
  let ?f = "[''in'', ''b.xlsx'']"
  let ?st = "\<lparr>st_size = 1048576, st_mtime = 0\<rparr>"
  let ?D = "[''in'', ''organized_by_size'', ''medium'']"
  let ?P = "[''in'', ''organized_by_size'', ''medium'', ''b.xlsx'']"
  let ?W2 = "snd (create_folder ?D w_sizes)"
  let ?W3 = "snd (move_file ?f ?P ?W2)"
  note T = size_bucket_thresholds [of _ ?f w_sizes ?st "[''in'']" "[]"]
  have s: "os_stat ?f w_sizes = (Inr ?st, w_sizes)"
    by (simp add: os_stat_def node_at_def w_sizes_def)
  have a: "size_folder 2048 = ''small''" using T [of 2048] by simp
  have b: "size_folder 5000000 = ''medium''" using T [of 5000000] by simp
  have c: "size_folder 20971520 = ''large''" using T [of 20971520] by simp
  have sm: "size_folder (st_size ?st) = ''medium''" using T [of 2048] by simp
  have D: "[''in''] @ [''organized_by_size'', size_folder (st_size ?st)] = ?D"
    by (simp only: sm) simp
  have P: "pjoin ?D (name ?f) = ?P" by (simp add: path_defs)
  have n: "node_at w_sizes ?f = Some (File ?st ''b'')"
    by (simp add: node_at_def w_sizes_def)
  have t: "fst (create_folder ?D w_sizes) = Inr True"
    by (simp add: w_sizes_def create_folder_def logger_def lib_defs sys_defs query_defs
          path_defs)
  have t': "fst (move_file ?f ?P ?W2) = Inr True"
    by (simp add: w_sizes_def handler_defs lib_defs sys_defs query_defs path_defs)
  have nd: "\<not> is_dir ?W2 ?P"
    by (simp add: w_sizes_def handler_defs lib_defs sys_defs query_defs path_defs)
  have ne: "?f \<noteq> ?P" by simp
  from T [of 2048] s have
    d: "dest_folder [''in''] ''size'' ?f w_sizes =
          (Inr ([''in''] @ [''organized_by_size'', size_folder (st_size ?st)]), w_sizes)" and
    ex: "\<exists>b w2 b' w3.
         create_folder ([''in''] @ [''organized_by_size'', size_folder (st_size ?st)]) w_sizes =
           (Inr b, w2) \<and>
         (b \<longrightarrow> is_dir w2 ([''in''] @ [''organized_by_size'', size_folder (st_size ?st)])) \<and>
         move_file ?f
           (pjoin ([''in''] @ [''organized_by_size'', size_folder (st_size ?st)])
              (name ?f)) w2 = (Inr b', w3) \<and>
         organize_loop [''in''] ''size'' [?f] w_sizes = organize_loop [''in''] ''size'' [] w3 \<and>
         (\<forall>c. node_at w_sizes ?f = Some (File ?st c) \<and> b' \<and>
              \<not> is_dir w2 (pjoin ([''in''] @
                                   [''organized_by_size'', size_folder (st_size ?st)])
                              (name ?f)) \<and>
              ?f \<noteq> pjoin ([''in''] @ [''organized_by_size'', size_folder (st_size ?st)])
                      (name ?f) \<longrightarrow>
              node_at w3 (pjoin ([''in''] @
                                   [''organized_by_size'', size_folder (st_size ?st)])
                            (name ?f)) = Some (File ?st c) \<and>
              node_at w3 ?f = None)"
    by blast+
  note d = d [unfolded D] and ex = ex [unfolded D P]
  from ex obtain b0 w2 b' w3 where
    cf: "create_folder ?D w_sizes = (Inr b0, w2)" and
    i: "b0 \<longrightarrow> is_dir w2 ?D" and
    mv: "move_file ?f ?P w2 = (Inr b', w3)" and
    e: "\<forall>c. node_at w_sizes ?f = Some (File ?st c) \<and> b' \<and> \<not> is_dir w2 ?P \<and> ?f \<noteq> ?P \<longrightarrow>
              node_at w3 ?P = Some (File ?st c) \<and> node_at w3 ?f = None"
    by blast
  from cf t have b0: b0 and w2: "w2 = ?W2" by simp_all
  from mv t' have b': b' and w3: "w3 = ?W3" by (simp_all add: w2)
  from i b0 have 1: "is_dir ?W2 ?D" by (simp add: w2)
  from e n b' nd ne have 2: "node_at ?W3 ?P = Some (File ?st ''b'') \<and> node_at ?W3 ?f = None"
    unfolding w2 w3 by blast
  have r: "fst (organize_excel_files [''in''] ''size'' w_sizes) = Inr True \<and>
   node_at (snd (organize_excel_files [''in''] ''size'' w_sizes))
     [''in'', ''organized_by_size'', ''small'', ''a.xlsx''] =
     Some (File \<lparr>st_size = 1048575, st_mtime = 0\<rparr> ''a'') \<and>
   node_at (snd (organize_excel_files [''in''] ''size'' w_sizes))
     [''in'', ''organized_by_size'', ''medium'', ''b.xlsx''] =
     Some (File \<lparr>st_size = 1048576, st_mtime = 0\<rparr> ''b'') \<and>
   node_at (snd (organize_excel_files [''in''] ''size'' w_sizes))
     [''in'', ''organized_by_size'', ''large'', ''c.xls''] =
     Some (File \<lparr>st_size = 10485760, st_mtime = 0\<rparr> ''c'') \<and>
   node_at (snd (organize_excel_files [''in''] ''size'' w_sizes)) [''in'', ''b.xlsx''] = None"
    by (simp add: w_sizes_def handler_defs lib_defs sys_defs query_defs path_defs
          size_folder_def)
  from a b c s d t 1 n t' nd ne 2 r show ?thesis by simp
qed

subsection \<open>Fail-soft primitives\<close>

text \<open>
  C8. Each of the eight primitives (create folder, copy file, move file, copy folder, move
  folder, list files, delete file, delete folder) returns a value and never lets an
  exception out: the result is a boolean (a sequence for the listing), the boolean is
  False exactly when the call ends by emitting an error record, and a listing that ends
  with an error record is empty.
\<close>

theorem primitives_never_raise:
  "(\<exists>b w'. create_folder p w = (Inr b, w') \<and> b = (\<not> is_error (last (log w')))) \<and>
   (\<exists>b w'. copy_file s d w = (Inr b, w') \<and> b = (\<not> is_error (last (log w')))) \<and>
   (\<exists>b w'. move_file s d w = (Inr b, w') \<and> b = (\<not> is_error (last (log w')))) \<and>
   (\<exists>b w'. copy_folder s d w = (Inr b, w') \<and> b = (\<not> is_error (last (log w')))) \<and>
   (\<exists>b w'. move_folder s d w = (Inr b, w') \<and> b = (\<not> is_error (last (log w')))) \<and>
   (\<exists>xs w'. list_files p ext w = (Inr xs, w') \<and>
              (is_error (last (log w')) \<longrightarrow> xs = [])) \<and>
   (\<exists>b w'. delete_file p w = (Inr b, w') \<and> b = (\<not> is_error (last (log w')))) \<and>
   (\<exists>b w'. delete_folder p w = (Inr b, w') \<and> b = (\<not> is_error (last (log w'))))"
  using create_folder_total [of p w] copy_file_total [of s d w] move_file_total [of s d w]
    copy_folder_total [of s d w] move_folder_total [of s d w] list_files_total [of p ext w]
    delete_file_total [of p w] delete_folder_total [of p w]
  by blast

theorem primitives_never_raise_witness:
  "is_error (last (log (snd (list_files [''gone''] None w_sizes)))) \<and>
   fst (list_files [''gone''] None w_sizes) = Inr [] \<and>
   is_error (last (log (snd (delete_file [''gone''] w_sizes)))) \<and>
   fst (delete_file [''gone''] w_sizes) = Inr False \<and>
   is_error (last (log (snd (move_file [''gone''] [''out'', ''x''] w_sizes)))) \<and>
   fst (move_file [''gone''] [''out'', ''x''] w_sizes) = Inr False"
proof -
  note t = primitives_never_raise [of "[''gone'']" w_sizes "[''gone'']" "[''out'', ''x'']" None]
  have l: "is_error (last (log (snd (list_files [''gone''] None w_sizes))))"
    by (simp add: w_sizes_def list_files_def path_iterdir_def os_scandir_def node_at_def
          logger_def is_error_def)
  have d: "is_error (last (log (snd (delete_file [''gone''] w_sizes))))"
    by (simp add: w_sizes_def delete_file_def os_unlink_def node_at_def logger_def
          is_error_def)
  have m: "is_error (last (log (snd (move_file [''gone''] [''out'', ''x''] w_sizes))))"
    by (simp add: w_sizes_def handler_defs lib_defs sys_defs query_defs path_defs
          is_error_def)
  from t obtain xs w1 where
    "list_files [''gone''] None w_sizes = (Inr xs, w1)" "is_error (last (log w1)) \<longrightarrow> xs = []"
    by blast
  with l have l': "fst (list_files [''gone''] None w_sizes) = Inr []" by simp
  from t obtain b w2 where
    "delete_file [''gone''] w_sizes = (Inr b, w2)" "b = (\<not> is_error (last (log w2)))"
    by blast
  with d have d': "fst (delete_file [''gone''] w_sizes) = Inr False" by simp
  from t obtain b' w3 where
    "move_file [''gone''] [''out'', ''x''] w_sizes = (Inr b', w3)"
    "b' = (\<not> is_error (last (log w3)))"
    by blast
  with m have m': "fst (move_file [''gone''] [''out'', ''x''] w_sizes) = Inr False" by simp
  from l l' d d' m m' show ?thesis by blast
qed

subsection \<open>A backup whose copy fails\<close>

text \<open>
  C2, at a source file that does not exist: the copy fails (FileNotFoundError, logged by
  copy_file), no file appears at the backup path, and backup_excel_file still returns that
  path instead of the empty string.
\<close>

theorem backup_of_missing_file_returns_path:
  "fst (backup_excel_file \<lparr>base_folder = [''base'']\<rparr> [''missing.xlsx''] None w_sizes) =
     Inr ''base/backups/missing_backup_20240315_100000.xlsx'' \<and>
   node_at (snd (backup_excel_file \<lparr>base_folder = [''base'']\<rparr> [''missing.xlsx''] None w_sizes))
     [''base'', ''backups'', ''missing_backup_20240315_100000.xlsx''] = None \<and>
   last (log (snd (backup_excel_file \<lparr>base_folder = [''base'']\<rparr> [''missing.xlsx''] None
                     w_sizes))) =
     Error_copying_file [''missing.xlsx'']
       [''base'', ''backups'', ''missing_backup_20240315_100000.xlsx''] (OSError ENOENT)"
  by (simp add: backup_excel_file_def backup_name_def stem_def suffix_of_def directive_def
        pad2_def pad4_def digit_def dt0_def
        w_sizes_def handler_defs lib_defs sys_defs query_defs path_defs)

subsection \<open>The name and the place of a backup\<close>



subsection \<open>A listing with an extension\<close>

text \<open>
  C3, at a folder that holds a directory whose name ends in the extension: with the
  extension \<^verbatim>\<open>.xlsx\<close> the listing of \<^verbatim>\<open>in\<close> returns the directory \<^verbatim>\<open>in/archive.xlsx\<close> beside the
  workbook \<^verbatim>\<open>in/report.xlsx\<close> (and not the workbook inside that directory), whereas the
  listing without an extension leaves the directory out.
\<close>

theorem list_files_with_extension_returns_directory:
  "fst (list_files [''in''] (Some ''.xlsx'') w_dir) =
     Inr [[''in'', ''report.xlsx''], [''in'', ''archive.xlsx'']] \<and>
   is_dir w_dir [''in'', ''archive.xlsx''] \<and>
   last (log (snd (list_files [''in''] (Some ''.xlsx'') w_dir))) = Found_files 2 [''in''] \<and>
   fst (list_files [''in''] None w_dir) =
     Inr [[''in'', ''report.xlsx''], [''in'', ''notes.txt'']]"
  by (simp add: w_dir_def list_files_def logger_def lib_defs sys_defs query_defs path_defs)

subsection \<open>A move that fails\<close>

text \<open>
  C7. When \<^verbatim>\<open>move_file\<close> is called on a regular file it returns a boolean, and when that
  boolean is False the source is still there with its content and metadata unchanged.
  The source is absent or changed afterwards only when the move reported success, and
  then the destination (the given path, or the source's name inside it when the given path
  is a directory) holds the file with its full content. A move that reports success
  towards a path that is no directory, and is not the source itself, leaves the file at
  that path and nothing at the source.
\<close>

theorem move_file_failure_keeps_source:
  "node_at w s = Some (File st c) \<longrightarrow>
     (\<exists>b w'. move_file s d w = (Inr b, w') \<and>
        (\<not> b \<longrightarrow> node_at w' s = Some (File st c)) \<and>
        (node_at w' s \<noteq> Some (File st c) \<longrightarrow>
           b \<and> node_at w' s = None \<and>
           (node_at w' d = Some (File st c) \<or>
            node_at w' (pjoin d (name s)) = Some (File st c))) \<and>
        (b \<and> s \<noteq> d \<and> \<not> is_dir w d \<longrightarrow>
           node_at w' d = Some (File st c) \<and> node_at w' s = None))"
proof
  assume f: "node_at w s = Some (File st c)"
  obtain b w' where m: "move_file s d w = (Inr b, w')"
    using move_file_total [of s d w] by blast
  from move_file_effect [OF f m] m show
    "\<exists>b w'. move_file s d w = (Inr b, w') \<and>
        (\<not> b \<longrightarrow> node_at w' s = Some (File st c)) \<and>
        (node_at w' s \<noteq> Some (File st c) \<longrightarrow>
           b \<and> node_at w' s = None \<and>
           (node_at w' d = Some (File st c) \<or>
            node_at w' (pjoin d (name s)) = Some (File st c))) \<and>
        (b \<and> s \<noteq> d \<and> \<not> is_dir w d \<longrightarrow>
           node_at w' d = Some (File st c) \<and> node_at w' s = None)"
    by blast
qed

theorem move_file_failure_keeps_source_witness:
  "node_at w_locked [''in'', ''a.xlsx''] =
     Some (File \<lparr>st_size = 1048575, st_mtime = 0\<rparr> ''a'') \<and>
   fst (move_file [''in'', ''a.xlsx''] [''out'', ''a.xlsx''] w_locked) = Inr False \<and>
   last (log (snd (move_file [''in'', ''a.xlsx''] [''out'', ''a.xlsx''] w_locked))) =
     Error_moving_file [''in'', ''a.xlsx''] [''out'', ''a.xlsx''] (OSError EACCES) \<and>
   node_at (snd (move_file [''in'', ''a.xlsx''] [''out'', ''a.xlsx''] w_locked))
     [''in'', ''a.xlsx''] = Some (File \<lparr>st_size = 1048575, st_mtime = 0\<rparr> ''a'') \<and>
   node_at w_sizes [''in'', ''a.xlsx''] =
     Some (File \<lparr>st_size = 1048575, st_mtime = 0\<rparr> ''a'') \<and>
   fst (move_file [''in'', ''a.xlsx''] [''in'', ''b.xlsx'', ''x''] w_sizes) = Inr False \<and>
   node_at (snd (move_file [''in'', ''a.xlsx''] [''in'', ''b.xlsx'', ''x''] w_sizes))
     [''in'', ''a.xlsx''] = Some (File \<lparr>st_size = 1048575, st_mtime = 0\<rparr> ''a'') \<and>
   fst (move_file [''in'', ''a.xlsx''] [''out'', ''a.xlsx''] w_sizes) = Inr True \<and>
   [''in'', ''a.xlsx''] \<noteq> [''out'', ''a.xlsx''] \<and>
   \<not> is_dir w_sizes [''out'', ''a.xlsx''] \<and>
   node_at (snd (move_file [''in'', ''a.xlsx''] [''out'', ''a.xlsx''] w_sizes))
     [''out'', ''a.xlsx''] = Some (File \<lparr>st_size = 1048575, st_mtime = 0\<rparr> ''a'') \<and>
   node_at (snd (move_file [''in'', ''a.xlsx''] [''out'', ''a.xlsx''] w_sizes))
     [''in'', ''a.xlsx''] = None"
proof -
  let ?s = "[''in'', ''a.xlsx'']"
  let ?st = "\<lparr>st_size = 1048575, st_mtime = 0\<rparr>"
  let ?d = "[''out'', ''a.xlsx'']"
  let ?e = "[''in'', ''b.xlsx'', ''x'']"
  have n1: "node_at w_locked ?s = Some (File ?st ''a'')"
    by (simp add: w_locked_def w_sizes_def node_at_def)
  have n2: "node_at w_sizes ?s = Some (File ?st ''a'')"
    by (simp add: w_sizes_def node_at_def)
  have r1: "fst (move_file ?s ?d w_locked) = Inr False \<and>
            last (log (snd (move_file ?s ?d w_locked))) =
              Error_moving_file ?s ?d (OSError EACCES)"
    by (simp add: w_locked_def w_sizes_def handler_defs lib_defs sys_defs query_defs
          path_defs)
  have r2: "fst (move_file ?s ?e w_sizes) = Inr False"
    by (simp add: w_sizes_def handler_defs lib_defs sys_defs query_defs path_defs)
  have r3: "fst (move_file ?s ?d w_sizes) = Inr True"
    by (simp add: w_sizes_def handler_defs lib_defs sys_defs query_defs path_defs)
  have nd: "\<not> is_dir w_sizes ?d" by (simp add: w_sizes_def query_defs)
  have ne: "?s \<noteq> ?d" by simp
  from move_file_failure_keeps_source [of w_locked ?s ?st "''a''" ?d] n1 r1
  have k1: "node_at (snd (move_file ?s ?d w_locked)) ?s = Some (File ?st ''a'')"
    by auto
  from move_file_failure_keeps_source [of w_sizes ?s ?st "''a''" ?e] n2 r2
  have k2: "node_at (snd (move_file ?s ?e w_sizes)) ?s = Some (File ?st ''a'')"
    by auto
  from move_file_failure_keeps_source [of w_sizes ?s ?st "''a''" ?d] n2 r3 nd ne
  have k3: "node_at (snd (move_file ?s ?d w_sizes)) ?d = Some (File ?st ''a'') \<and>
            node_at (snd (move_file ?s ?d w_sizes)) ?s = None"
    by auto
  from n1 r1 k1 n2 r2 k2 r3 ne nd k3 show ?thesis by blast
qed

subsection \<open>Creating a folder twice\<close>







subsection \<open>Going on after a move that failed\<close>

text \<open>
  C4. The organize operation lists the \<^verbatim>\<open>.xlsx\<close> and then the \<^verbatim>\<open>.xls\<close> entries and runs its loop
  over them; it returns a boolean. The move records it adds to the log (one per call of
  \<^verbatim>\<open>move_file\<close>: the source, and success or an error record) name, in order, a prefix of
  the enumerated files, and all of them when the operation returns True: a file whose move
  failed does not stop the files after it from being tried. In one turn of the loop, when
  \<^verbatim>\<open>move_file\<close> returns False the failure has been logged as an error record for that file
  and its destination, and the loop goes on with the remaining files in the world the
  failed move left.
\<close>

theorem organize_continues_after_failed_move:
  "(\<exists>xs w1 ys w2 b w3 new.
      list_files source_folder (Some ''.xlsx'') w = (Inr xs, w1) \<and>
      list_files source_folder (Some ''.xls'') w1 = (Inr ys, w2) \<and>
      organize_excel_files source_folder organize_by w = (Inr b, w3) \<and>
      log w3 = log w2 @ new \<and>
      prefix (map fst (move_attempts new)) (xs @ ys) \<and>
      (b \<longrightarrow> map fst (move_attempts new) = xs @ ys)) \<and>
   (dest_folder source_folder organize_by f v = (Inr D, v) \<and>
    create_folder D v = (Inr c, v2) \<and>
    move_file f (pjoin D (name f)) v2 = (Inr False, v3) \<longrightarrow>
      organize_loop source_folder organize_by (f # rest) v =
        organize_loop source_folder organize_by rest v3 \<and>
      (\<exists>e. last (log v3) = Error_moving_file f (pjoin D (name f)) e) \<and>
      (\<exists>new. log v3 = log v2 @ new \<and> move_attempts new = [(f, False)]))"
proof -
  from organize_excel_files_loop [of source_folder w organize_by] obtain xs w1 ys w2 where
    1: "list_files source_folder (Some ''.xlsx'') w = (Inr xs, w1)" and
    2: "list_files source_folder (Some ''.xls'') w1 = (Inr ys, w2)" and
    3: "organize_excel_files source_folder organize_by w =
       (case organize_loop source_folder organize_by (xs @ ys) w2 of
          (Inl e, w3) \<Rightarrow> (Inr False, logger (Error_organizing e) w3)
        | (Inr u, w3) \<Rightarrow> (Inr True, w3))" by blast
  obtain r w3 where l: "organize_loop source_folder organize_by (xs @ ys) w2 = (r, w3)"
    by (cases "organize_loop source_folder organize_by (xs @ ys) w2")
  from organize_loop_log [OF l] obtain new where
    n: "log w3 = log w2 @ new" "prefix (map fst (move_attempts new)) (xs @ ys)"
       "r = Inr () \<longrightarrow> map fst (move_attempts new) = xs @ ys" by blast
  have A: "\<exists>b w3 new.
      organize_excel_files source_folder organize_by w = (Inr b, w3) \<and>
      log w3 = log w2 @ new \<and>
      prefix (map fst (move_attempts new)) (xs @ ys) \<and>
      (b \<longrightarrow> map fst (move_attempts new) = xs @ ys)"
  proof (cases r)
    case (Inr u)
    with 3 l have "organize_excel_files source_folder organize_by w = (Inr True, w3)" by simp
    with n Inr show ?thesis by auto
  next
    case (Inl e)
    with 3 l have o: "organize_excel_files source_folder organize_by w =
       (Inr False, logger (Error_organizing e) w3)" by simp
    have "log (logger (Error_organizing e) w3) = log w2 @ (new @ [Error_organizing e])"
      using n(1) by (simp add: logger_def)
    moreover have "move_attempts (new @ [Error_organizing e]) = move_attempts new"
      by (simp only: move_attempts_append) simp
    ultimately show ?thesis using o n(2) by (metis (full_types))
  qed
  have B: "dest_folder source_folder organize_by f v = (Inr D, v) \<and>
    create_folder D v = (Inr c, v2) \<and>
    move_file f (pjoin D (name f)) v2 = (Inr False, v3) \<longrightarrow>
      organize_loop source_folder organize_by (f # rest) v =
        organize_loop source_folder organize_by rest v3 \<and>
      (\<exists>e. last (log v3) = Error_moving_file f (pjoin D (name f)) e) \<and>
      (\<exists>new. log v3 = log v2 @ new \<and> move_attempts new = [(f, False)])"
  proof (intro impI, elim conjE)
    assume d: "dest_folder source_folder organize_by f v = (Inr D, v)"
      and c: "create_folder D v = (Inr c, v2)"
      and m: "move_file f (pjoin D (name f)) v2 = (Inr False, v3)"
    from d c m have "organize_loop source_folder organize_by (f # rest) v =
        organize_loop source_folder organize_by rest v3" by (simp add: Let_def)
    moreover from move_file_log [OF m]
    have "(\<exists>e. last (log v3) = Error_moving_file f (pjoin D (name f)) e) \<and>
          (\<exists>new. log v3 = log v2 @ new \<and> move_attempts new = [(f, False)])" by auto
    ultimately show "organize_loop source_folder organize_by (f # rest) v =
        organize_loop source_folder organize_by rest v3 \<and>
      (\<exists>e. last (log v3) = Error_moving_file f (pjoin D (name f)) e) \<and>
      (\<exists>new. log v3 = log v2 @ new \<and> move_attempts new = [(f, False)])" by blast
  qed
  from 1 2 A B show ?thesis by blast
qed

theorem organize_continues_after_failed_move_witness:
  "dest_folder [''in''] ''size'' [''in'', ''a.xlsx''] w_denied =
     (Inr [''in'', ''organized_by_size'', ''small''], w_denied) \<and>
   create_folder [''in'', ''organized_by_size'', ''small''] w_denied =
     (Inr True, snd (create_folder [''in'', ''organized_by_size'', ''small''] w_denied)) \<and>
   move_file [''in'', ''a.xlsx''] [''in'', ''organized_by_size'', ''small'', ''a.xlsx'']
       (snd (create_folder [''in'', ''organized_by_size'', ''small''] w_denied)) =
     (Inr False,
      snd (move_file [''in'', ''a.xlsx''] [''in'', ''organized_by_size'', ''small'', ''a.xlsx'']
             (snd (create_folder [''in'', ''organized_by_size'', ''small''] w_denied)))) \<and>
   organize_loop [''in''] ''size'' [[''in'', ''a.xlsx''], [''in'', ''b.xlsx'']] w_denied =
     organize_loop [''in''] ''size'' [[''in'', ''b.xlsx'']]
       (snd (move_file [''in'', ''a.xlsx'']
               [''in'', ''organized_by_size'', ''small'', ''a.xlsx'']
               (snd (create_folder [''in'', ''organized_by_size'', ''small''] w_denied)))) \<and>
   last (log (snd (move_file [''in'', ''a.xlsx'']
                     [''in'', ''organized_by_size'', ''small'', ''a.xlsx'']
                     (snd (create_folder [''in'', ''organized_by_size'', ''small''] w_denied))))) =
     Error_moving_file [''in'', ''a.xlsx'']
       [''in'', ''organized_by_size'', ''small'', ''a.xlsx''] (OSError EACCES) \<and>
   fst (organize_excel_files [''in''] ''size'' w_denied) = Inr True \<and>
   move_attempts (log (snd (organize_excel_files [''in''] ''size'' w_denied))) =
     [([''in'', ''a.xlsx''], False), ([''in'', ''b.xlsx''], True), ([''in'', ''c.xls''], True)] \<and>
   node_at (snd (organize_excel_files [''in''] ''size'' w_denied)) [''in'', ''a.xlsx''] =
     Some (File \<lparr>st_size = 1048575, st_mtime = 0\<rparr> ''a'') \<and>
   node_at (snd (organize_excel_files [''in''] ''size'' w_denied))
     [''in'', ''organized_by_size'', ''medium'', ''b.xlsx''] =
     Some (File \<lparr>st_size = 1048576, st_mtime = 0\<rparr> ''b'') \<and>
   node_at (snd (organize_excel_files [''in''] ''size'' w_denied))
     [''in'', ''organized_by_size'', ''large'', ''c.xls''] =
     Some (File \<lparr>st_size = 10485760, st_mtime = 0\<rparr> ''c'')"
proof -
  let ?a = "[''in'', ''a.xlsx'']"
  let ?D = "[''in'', ''organized_by_size'', ''small'']"
  let ?P = "[''in'', ''organized_by_size'', ''small'', ''a.xlsx'']"
  let ?V2 = "snd (create_folder ?D w_denied)"
  let ?V3 = "snd (move_file ?a ?P ?V2)"
  have P: "pjoin ?D (name ?a) = ?P" by (simp add: path_defs)
  have d: "dest_folder [''in''] ''size'' ?a w_denied = (Inr ?D, w_denied)"
    by (simp add: w_denied_def w_sizes_def dest_folder_def os_stat_def node_at_def
          size_folder_def path_defs)
  have "fst (create_folder ?D w_denied) = Inr True"
    by (simp add: w_denied_def w_sizes_def create_folder_def logger_def lib_defs sys_defs
          query_defs path_defs)
  then have c: "create_folder ?D w_denied = (Inr True, ?V2)" by (metis prod.collapse)
  have "fst (move_file ?a ?P ?V2) = Inr False"
    by (simp add: w_denied_def w_sizes_def handler_defs lib_defs sys_defs query_defs
          path_defs)
  then have m: "move_file ?a ?P ?V2 = (Inr False, ?V3)" by (metis prod.collapse)
  have e: "last (log ?V3) = Error_moving_file ?a ?P (OSError EACCES)"
    by (simp add: w_denied_def w_sizes_def handler_defs lib_defs sys_defs query_defs
          path_defs)
  from organize_continues_after_failed_move
         [of "[''in'']" w_denied "''size''" ?a w_denied ?D True ?V2 ?V3 "[[''in'', ''b.xlsx'']]"]
       d c m
  have l: "organize_loop [''in''] ''size'' [?a, [''in'', ''b.xlsx'']] w_denied =
           organize_loop [''in''] ''size'' [[''in'', ''b.xlsx'']] ?V3"
    unfolding P by blast
  have r: "fst (organize_excel_files [''in''] ''size'' w_denied) = Inr True \<and>
   move_attempts (log (snd (organize_excel_files [''in''] ''size'' w_denied))) =
     [([''in'', ''a.xlsx''], False), ([''in'', ''b.xlsx''], True), ([''in'', ''c.xls''], True)] \<and>
   node_at (snd (organize_excel_files [''in''] ''size'' w_denied)) [''in'', ''a.xlsx''] =
     Some (File \<lparr>st_size = 1048575, st_mtime = 0\<rparr> ''a'') \<and>
   node_at (snd (organize_excel_files [''in''] ''size'' w_denied))
     [''in'', ''organized_by_size'', ''medium'', ''b.xlsx''] =
     Some (File \<lparr>st_size = 1048576, st_mtime = 0\<rparr> ''b'') \<and>
   node_at (snd (organize_excel_files [''in''] ''size'' w_denied))
     [''in'', ''organized_by_size'', ''large'', ''c.xls''] =
     Some (File \<lparr>st_size = 10485760, st_mtime = 0\<rparr> ''c'')"
    by (simp add: w_denied_def w_sizes_def handler_defs lib_defs sys_defs query_defs
          path_defs size_folder_def)
  from d c m l e r show ?thesis by blast
qed

subsection \<open>The value the organize operation returns\<close>

text \<open>
  C10. The organize operation always returns a boolean, and that boolean does not depend
  on what the moves returned. With the entries the two listings return, it is True
  exactly when the loop over them ends without an exception, and False (after an error
  record for the exception) exactly when an exception leaves the loop; such an exception
  is one raised by the computation of the destination folder of an enumerated file (the
  \<^verbatim>\<open>stat\<close>, the conversion of the date, or the first character of the stem). In a turn of
  the loop whose destination folder is computed, the loop goes on with the remaining files
  whatever \<^verbatim>\<open>create_folder\<close> and \<^verbatim>\<open>move_file\<close> return.
\<close>

theorem organize_result_ignores_moves:
  "(\<exists>xs w1 ys w2 r w3.
      list_files source_folder (Some ''.xlsx'') w = (Inr xs, w1) \<and>
      list_files source_folder (Some ''.xls'') w1 = (Inr ys, w2) \<and>
      organize_loop source_folder organize_by (xs @ ys) w2 = (r, w3) \<and>
      (case r of
         Inr u \<Rightarrow> organize_excel_files source_folder organize_by w = (Inr True, w3)
       | Inl e \<Rightarrow>
           organize_excel_files source_folder organize_by w =
             (Inr False, logger (Error_organizing e) w3) \<and>
           (\<exists>f\<in>set (xs @ ys). \<exists>v. dest_folder source_folder organize_by f v = (Inl e, v)))) \<and>
   (dest_folder source_folder organize_by f v = (Inr D, v) \<longrightarrow>
      (\<exists>b v2 b' v3. create_folder D v = (Inr b, v2) \<and>
                    move_file f (pjoin D (name f)) v2 = (Inr b', v3)) \<and>
      (\<forall>b v2 b' v3. create_folder D v = (Inr b, v2) \<and>
                    move_file f (pjoin D (name f)) v2 = (Inr b', v3) \<longrightarrow>
                    organize_loop source_folder organize_by (f # rest) v =
                      organize_loop source_folder organize_by rest v3)) \<and>
   (dest_folder source_folder organize_by f v = (Inl e, v) \<longrightarrow>
      organize_loop source_folder organize_by (f # rest) v = (Inl e, v)) \<and>
   organize_loop source_folder organize_by [] v = (Inr (), v)"
proof -
  from organize_excel_files_loop [of source_folder w organize_by] obtain xs w1 ys w2 where
    1: "list_files source_folder (Some ''.xlsx'') w = (Inr xs, w1)" and
    2: "list_files source_folder (Some ''.xls'') w1 = (Inr ys, w2)" and
    3: "organize_excel_files source_folder organize_by w =
       (case organize_loop source_folder organize_by (xs @ ys) w2 of
          (Inl e, w3) \<Rightarrow> (Inr False, logger (Error_organizing e) w3)
        | (Inr u, w3) \<Rightarrow> (Inr True, w3))" by blast
  obtain r w3 where l: "organize_loop source_folder organize_by (xs @ ys) w2 = (r, w3)"
    by (cases "organize_loop source_folder organize_by (xs @ ys) w2")
  have c: "case r of
         Inr u \<Rightarrow> organize_excel_files source_folder organize_by w = (Inr True, w3)
       | Inl e \<Rightarrow>
           organize_excel_files source_folder organize_by w =
             (Inr False, logger (Error_organizing e) w3) \<and>
           (\<exists>f\<in>set (xs @ ys). \<exists>v. dest_folder source_folder organize_by f v = (Inl e, v))"
  proof (cases r)
    case (Inr u)
    with 3 l show ?thesis by simp
  next
    case (Inl e)
    with l organize_loop_Inl [of source_folder organize_by "xs @ ys" w2 e w3]
    have "\<exists>f\<in>set (xs @ ys). \<exists>v. dest_folder source_folder organize_by f v = (Inl e, v)"
      by blast
    with Inl 3 l show ?thesis by simp
  qed
  have A: "\<exists>xs w1 ys w2 r w3.
      list_files source_folder (Some ''.xlsx'') w = (Inr xs, w1) \<and>
      list_files source_folder (Some ''.xls'') w1 = (Inr ys, w2) \<and>
      organize_loop source_folder organize_by (xs @ ys) w2 = (r, w3) \<and>
      (case r of
         Inr u \<Rightarrow> organize_excel_files source_folder organize_by w = (Inr True, w3)
       | Inl e \<Rightarrow>
           organize_excel_files source_folder organize_by w =
             (Inr False, logger (Error_organizing e) w3) \<and>
           (\<exists>f\<in>set (xs @ ys). \<exists>v. dest_folder source_folder organize_by f v = (Inl e, v)))"
    using 1 2 l c by blast
  have B: "dest_folder source_folder organize_by f v = (Inr D, v) \<longrightarrow>
      (\<exists>b v2 b' v3. create_folder D v = (Inr b, v2) \<and>
                    move_file f (pjoin D (name f)) v2 = (Inr b', v3)) \<and>
      (\<forall>b v2 b' v3. create_folder D v = (Inr b, v2) \<and>
                    move_file f (pjoin D (name f)) v2 = (Inr b', v3) \<longrightarrow>
                    organize_loop source_folder organize_by (f # rest) v =
                      organize_loop source_folder organize_by rest v3)"
  proof
    assume d: "dest_folder source_folder organize_by f v = (Inr D, v)"
    from organize_loop_step [OF d, of rest]
    have "\<exists>b v2 b' v3. create_folder D v = (Inr b, v2) \<and>
                    move_file f (pjoin D (name f)) v2 = (Inr b', v3)" by blast
    moreover from d have "\<forall>b v2 b' v3. create_folder D v = (Inr b, v2) \<and>
                    move_file f (pjoin D (name f)) v2 = (Inr b', v3) \<longrightarrow>
                    organize_loop source_folder organize_by (f # rest) v =
                      organize_loop source_folder organize_by rest v3"
      by (simp add: Let_def)
    ultimately show "(\<exists>b v2 b' v3. create_folder D v = (Inr b, v2) \<and>
                    move_file f (pjoin D (name f)) v2 = (Inr b', v3)) \<and>
      (\<forall>b v2 b' v3. create_folder D v = (Inr b, v2) \<and>
                    move_file f (pjoin D (name f)) v2 = (Inr b', v3) \<longrightarrow>
                    organize_loop source_folder organize_by (f # rest) v =
                      organize_loop source_folder organize_by rest v3)" by blast
  qed
  have C: "dest_folder source_folder organize_by f v = (Inl e, v) \<longrightarrow>
      organize_loop source_folder organize_by (f # rest) v = (Inl e, v)" by simp
  have D: "organize_loop source_folder organize_by [] v = (Inr (), v)" by simp
  from A B C D show ?thesis by blast
qed

theorem organize_result_ignores_moves_witness:
  "dest_folder [''in''] ''size'' [''in'', ''a.xlsx''] w_denied =
     (Inr [''in'', ''organized_by_size'', ''small''], w_denied) \<and>
   create_folder [''in'', ''organized_by_size'', ''small''] w_denied =
     (Inr True, snd (create_folder [''in'', ''organized_by_size'', ''small''] w_denied)) \<and>
   move_file [''in'', ''a.xlsx''] [''in'', ''organized_by_size'', ''small'', ''a.xlsx'']
       (snd (create_folder [''in'', ''organized_by_size'', ''small''] w_denied)) =
     (Inr False,
      snd (move_file [''in'', ''a.xlsx''] [''in'', ''organized_by_size'', ''small'', ''a.xlsx'']
             (snd (create_folder [''in'', ''organized_by_size'', ''small''] w_denied)))) \<and>
   organize_loop [''in''] ''size'' [[''in'', ''a.xlsx''], [''in'', ''b.xlsx'']] w_denied =
     organize_loop [''in''] ''size'' [[''in'', ''b.xlsx'']]
       (snd (move_file [''in'', ''a.xlsx'']
               [''in'', ''organized_by_size'', ''small'', ''a.xlsx'']
               (snd (create_folder [''in'', ''organized_by_size'', ''small''] w_denied)))) \<and>
   fst (organize_excel_files [''in''] ''size'' w_denied) = Inr True \<and>
   dest_folder [''in''] ''size'' [''in'', ''b.xlsx''] w_nostat =
     (Inl (OSError EACCES), w_nostat) \<and>
   organize_loop [''in''] ''size'' [[''in'', ''b.xlsx''], [''in'', ''c.xls'']] w_nostat =
     (Inl (OSError EACCES), w_nostat) \<and>
   fst (organize_excel_files [''in''] ''size'' w_nostat) = Inr False \<and>
   last (log (snd (organize_excel_files [''in''] ''size'' w_nostat))) =
     Error_organizing (OSError EACCES) \<and>
   node_at (snd (organize_excel_files [''in''] ''size'' w_nostat))
     [''in'', ''organized_by_size'', ''small'', ''a.xlsx''] =
     Some (File \<lparr>st_size = 1048575, st_mtime = 0\<rparr> ''a'') \<and>
   node_at (snd (organize_excel_files [''in''] ''size'' w_nostat)) [''in'', ''c.xls''] =
     Some (File \<lparr>st_size = 10485760, st_mtime = 0\<rparr> ''c'')"
proof -
  let ?a = "[''in'', ''a.xlsx'']"
  let ?b = "[''in'', ''b.xlsx'']"
  let ?D = "[''in'', ''organized_by_size'', ''small'']"
  let ?P = "[''in'', ''organized_by_size'', ''small'', ''a.xlsx'']"
  let ?V2 = "snd (create_folder ?D w_denied)"
  let ?V3 = "snd (move_file ?a ?P ?V2)"
  have P: "pjoin ?D (name ?a) = ?P" by (simp add: path_defs)
  have d: "dest_folder [''in''] ''size'' ?a w_denied = (Inr ?D, w_denied)"
    by (simp add: w_denied_def w_sizes_def dest_folder_def os_stat_def node_at_def
          size_folder_def path_defs)
  have "fst (create_folder ?D w_denied) = Inr True"
    by (simp add: w_denied_def w_sizes_def create_folder_def logger_def lib_defs sys_defs
          query_defs path_defs)
  then have c: "create_folder ?D w_denied = (Inr True, ?V2)" by (metis prod.collapse)
  have "fst (move_file ?a ?P ?V2) = Inr False"
    by (simp add: w_denied_def w_sizes_def handler_defs lib_defs sys_defs query_defs
          path_defs)
  then have m: "move_file ?a ?P ?V2 = (Inr False, ?V3)" by (metis prod.collapse)
  from organize_result_ignores_moves
         [of "[''in'']" w_denied "''size''" ?a w_denied ?D "[?b]"] d
  have "\<forall>b v2 b' v3. create_folder ?D w_denied = (Inr b, v2) \<and>
                    move_file ?a (pjoin ?D (name ?a)) v2 = (Inr b', v3) \<longrightarrow>
                    organize_loop [''in''] ''size'' [?a, ?b] w_denied =
                      organize_loop [''in''] ''size'' [?b] v3"
    by blast
  with c m have l: "organize_loop [''in''] ''size'' [?a, ?b] w_denied =
                    organize_loop [''in''] ''size'' [?b] ?V3"
    unfolding P by blast
  have t: "fst (organize_excel_files [''in''] ''size'' w_denied) = Inr True"
    by (simp add: w_denied_def w_sizes_def handler_defs lib_defs sys_defs query_defs
          path_defs size_folder_def)
  have d': "dest_folder [''in''] ''size'' ?b w_nostat = (Inl (OSError EACCES), w_nostat)"
    by (simp add: w_nostat_def w_sizes_def dest_folder_def os_stat_def)
  from organize_result_ignores_moves
         [of "[''in'']" w_nostat "''size''" ?b w_nostat _ "[[''in'', ''c.xls'']]"
             "OSError EACCES"] d'
  have l': "organize_loop [''in''] ''size'' [?b, [''in'', ''c.xls'']] w_nostat =
            (Inl (OSError EACCES), w_nostat)"
    by blast
  have r: "fst (organize_excel_files [''in''] ''size'' w_nostat) = Inr False \<and>
   last (log (snd (organize_excel_files [''in''] ''size'' w_nostat))) =
     Error_organizing (OSError EACCES) \<and>
   node_at (snd (organize_excel_files [''in''] ''size'' w_nostat))
     [''in'', ''organized_by_size'', ''small'', ''a.xlsx''] =
     Some (File \<lparr>st_size = 1048575, st_mtime = 0\<rparr> ''a'') \<and>
   node_at (snd (organize_excel_files [''in''] ''size'' w_nostat)) [''in'', ''c.xls''] =
     Some (File \<lparr>st_size = 10485760, st_mtime = 0\<rparr> ''c'')"
    by (simp add: w_nostat_def w_sizes_def handler_defs lib_defs sys_defs query_defs
          path_defs size_folder_def)
  from d c m l t d' l' r show ?thesis by blast
qed

subsection \<open>Buckets by name\<close>










end
